theory Spec2Isabelle
  imports Complex_Main
begin

section \<open>Data model of \<^verbatim>\<open>vehicle.py\<close>\<close>

text \<open>
  Python floats are modelled as real numbers: every statement below is about the exact
  arithmetic of the formulas in the source, not about IEEE rounding. Exceptions that the
  arithmetic of the source can raise are values of \<open>py_error\<close>.
\<close>

datatype py_error = ZeroDivisionError | TypeError

text \<open>The concrete classes \<^verbatim>\<open>Car\<close>, \<^verbatim>\<open>Truck\<close> and \<^verbatim>\<open>AutomaticCar\<close>; the tag selects the
  \<^verbatim>\<open>calc_acceleration\<close> override that Python's method dispatch would call.\<close>

datatype vkind = Car | Truck | AutomaticCar

text \<open>
  The attributes of a vehicle object. \<open>length_v\<close> is the attribute \<^verbatim>\<open>length\<close>.
  \<open>HV_K3\<close> and \<open>HV_L2\<close> exist on \<^verbatim>\<open>AutomaticCar\<close> only and are read by its
  \<^verbatim>\<open>calc_acceleration\<close> only. The sprite name \<^verbatim>\<open>type\<close> is not read by any method
  modelled here and is left out.
\<close>

record vehicle =
  kind :: vkind
  lane :: int
  position :: real
  velocity :: real
  acceleration :: real
  emergency :: int
  HV_K :: real
  HV_K1 :: real
  HV_K2 :: real
  HV_K3 :: real
  HV_A0 :: real
  HV_L :: real
  HV_L2 :: real
  HV_AMAX :: real
  HV_BRAKING :: real
  length_v :: real
  extremely_safe_distance :: real
  safe_distance :: real
  desired_velocity :: real
  safe_time :: real
  epsilon :: real
  animlane :: real
  last_lane_change :: real

text \<open>The configuration object \<^verbatim>\<open>conf\<close>: the attributes that \<^verbatim>\<open>vehicle.py\<close> reads.\<close>

record conf =
  nb_lanes :: int
  fps :: int
  speedup :: real
  sound :: bool

text \<open>
  The road container is code outside \<^verbatim>\<open>vehicle.py\<close>; it is a parameter: six neighbour
  queries, each answering for the vehicle as it is at the moment of the call
  (\<open>back_v\<close> is the method \<^verbatim>\<open>back\<close>).
\<close>

record container =
  front :: "vehicle \<Rightarrow> vehicle option"
  back_v :: "vehicle \<Rightarrow> vehicle option"
  left_front :: "vehicle \<Rightarrow> vehicle option"
  left_back :: "vehicle \<Rightarrow> vehicle option"
  right_front :: "vehicle \<Rightarrow> vehicle option"
  right_back :: "vehicle \<Rightarrow> vehicle option"

text \<open>What an update does besides changing the vehicle: the printed warning, the sound,
  and \<^verbatim>\<open>container.notify_lane_change(self, previous_lane)\<close>.\<close>

datatype event = Warning_printed | Scream_played | Notify_lane_change int

section \<open>Constructors\<close>

text \<open>
  The values drawn with \<^verbatim>\<open>np.random.uniform\<close> and the reading of \<^verbatim>\<open>time.time()\<close> are
  parameters; \<open>Car_draws\<close>, \<open>Truck_draws\<close> and \<open>AutomaticCar_draws\<close> are the ranges
  they are drawn from.
\<close>

definition Car_init :: "int \<Rightarrow> real \<Rightarrow> real \<Rightarrow> real \<Rightarrow> real \<Rightarrow> real \<Rightarrow> real \<Rightarrow> real \<Rightarrow> vehicle" where
  "Car_init la pos l amax esd dv eps now =
     \<lparr> kind = Car, lane = la, position = pos, velocity = 0, acceleration = 0, emergency = 0,
       HV_K = 1.4, HV_K1 = 3.0, HV_K2 = 1.8, HV_K3 = 0, HV_A0 = 1.0, HV_L = l, HV_L2 = 0,
       HV_AMAX = amax, HV_BRAKING = 9.0, length_v = 4.0,
       extremely_safe_distance = esd, safe_distance = esd,
       desired_velocity = dv, safe_time = 0.9, epsilon = eps,
       animlane = of_int la, last_lane_change = now \<rparr>"

definition Car_draws :: "real \<Rightarrow> real \<Rightarrow> real \<Rightarrow> real \<Rightarrow> real \<Rightarrow> bool" where
  "Car_draws l amax esd dv eps =
     (1 \<le> l \<and> l \<le> 20 \<and> 2.5 \<le> amax \<and> amax \<le> 4 \<and> 2.5 \<le> esd \<and> esd \<le> 4 \<and>
      30 \<le> dv \<and> dv \<le> 35 \<and> 2 \<le> eps \<and> eps \<le> 10)"

definition Truck_init :: "int \<Rightarrow> real \<Rightarrow> real \<Rightarrow> real \<Rightarrow> real \<Rightarrow> real \<Rightarrow> real \<Rightarrow> vehicle" where
  "Truck_init la pos amax esd dv eps now =
     \<lparr> kind = Truck, lane = la, position = pos, velocity = 0, acceleration = 0, emergency = 0,
       HV_K = 2.0, HV_K1 = 2.6, HV_K2 = 2.2, HV_K3 = 0, HV_A0 = 1.0, HV_L = 1.0, HV_L2 = 0,
       HV_AMAX = amax, HV_BRAKING = 5.0, length_v = 15.0,
       extremely_safe_distance = esd, safe_distance = esd,
       desired_velocity = dv, safe_time = 2.2, epsilon = eps,
       animlane = of_int la, last_lane_change = now \<rparr>"

definition Truck_draws :: "real \<Rightarrow> real \<Rightarrow> real \<Rightarrow> real \<Rightarrow> bool" where
  "Truck_draws amax esd dv eps =
     (1 \<le> amax \<and> amax \<le> 2 \<and> 8 \<le> esd \<and> esd \<le> 9 \<and>
      18 \<le> dv \<and> dv \<le> 22 \<and> 1 \<le> eps \<and> eps \<le> 3)"

definition AutomaticCar_init :: "int \<Rightarrow> real \<Rightarrow> real \<Rightarrow> real \<Rightarrow> real \<Rightarrow> real \<Rightarrow> vehicle" where
  "AutomaticCar_init la pos amax dv eps now =
     \<lparr> kind = AutomaticCar, lane = la, position = pos, velocity = 0, acceleration = 0,
       emergency = 0,
       HV_K = 1.4, HV_K1 = 3.0, HV_K2 = 1.8, HV_K3 = 1.1, HV_A0 = 1.0, HV_L = 10, HV_L2 = 50,
       HV_AMAX = amax, HV_BRAKING = 9.0, length_v = 4.0,
       extremely_safe_distance = 4.0, safe_distance = 4.0,
       desired_velocity = dv, safe_time = 0.9, epsilon = eps,
       animlane = of_int la, last_lane_change = now \<rparr>"

definition AutomaticCar_draws :: "real \<Rightarrow> real \<Rightarrow> real \<Rightarrow> bool" where
  "AutomaticCar_draws amax dv eps =
     (2.5 \<le> amax \<and> amax \<le> 4 \<and> 30 \<le> dv \<and> dv \<le> 35 \<and> 2 \<le> eps \<and> eps \<le> 10)"

section \<open>\<^verbatim>\<open>Vehicle.update\<close>: kinematics and the emergency speed change\<close>

definition Vehicle_update :: "conf \<Rightarrow> container \<Rightarrow> real \<Rightarrow> vehicle \<Rightarrow> vehicle \<times> event list" where
  "Vehicle_update cf ct dt self =
     (let new_position = position self + dt * velocity self
                           + 0.5 * dt * dt * acceleration self;
          new_velocity = max 0 (velocity self + acceleration self * dt)
      in case front ct self of
           None \<Rightarrow>
             (self\<lparr> position := new_position, velocity := new_velocity,
                    emergency := max 0 (emergency self - 1) \<rparr>, [])
         | Some f \<Rightarrow>
             if \<bar>position f - new_position\<bar> < 0.99 * extremely_safe_distance self
             then (self\<lparr> velocity := velocity f, acceleration := acceleration f,
                         position := position f - extremely_safe_distance self,
                         emergency := fps cf \<rparr>,
                   Warning_printed # (if sound cf then [Scream_played] else []))
             else (self\<lparr> position := new_position, velocity := new_velocity,
                         emergency := max 0 (emergency self - 1) \<rparr>, []))"

section \<open>\<^verbatim>\<open>HumanVehicle\<close>: lane changes and car following\<close>

text \<open>
  Python's \<^verbatim>\<open>and\<close> and \<^verbatim>\<open>or\<close> evaluate their right operand only when the left one does
  not decide; an exception in an operand that is evaluated is the result.
\<close>

definition py_and :: "py_error + bool \<Rightarrow> py_error + bool \<Rightarrow> py_error + bool" where
  "py_and a b = (case a of Inl e \<Rightarrow> Inl e | Inr x \<Rightarrow> if x then b else Inr False)"

definition py_or :: "py_error + bool \<Rightarrow> py_error + bool \<Rightarrow> py_error + bool" where
  "py_or a b = (case a of Inl e \<Rightarrow> Inl e | Inr x \<Rightarrow> if x then Inr True else b)"

text \<open>Comparing \<^verbatim>\<open>None\<close> with a float raises \<^verbatim>\<open>TypeError\<close>.\<close>

definition gt_o :: "real option \<Rightarrow> real \<Rightarrow> py_error + bool" where
  "gt_o x y = (case x of None \<Rightarrow> Inl TypeError | Some a \<Rightarrow> Inr (a > y))"

definition ge_o :: "real option \<Rightarrow> real \<Rightarrow> py_error + bool" where
  "ge_o x y = (case x of None \<Rightarrow> Inl TypeError | Some a \<Rightarrow> Inr (a \<ge> y))"

text \<open>The \<^verbatim>\<open>location\<close> argument of \<^verbatim>\<open>_enough_room\<close>: the callers pass the four pairs of
  \<^verbatim>\<open>'left'\<close>/\<^verbatim>\<open>'right'\<close> and \<^verbatim>\<open>'front'\<close>/\<^verbatim>\<open>'back'\<close>.\<close>

datatype side = Left | Right

datatype fore_aft = Front | Back

definition enough_room :: "vehicle \<Rightarrow> container \<Rightarrow> side \<times> fore_aft \<Rightarrow> bool" where
  "enough_room self ct location =
     (let vd = (case location of
                  (Left, Front) \<Rightarrow>
                    map_option (\<lambda>v. (v, position v - position self)) (left_front ct self)
                | (Right, Front) \<Rightarrow>
                    map_option (\<lambda>v. (v, position v - position self)) (right_front ct self)
                | (Left, Back) \<Rightarrow>
                    map_option (\<lambda>v. (v, position self - position v)) (left_back ct self)
                | (Right, Back) \<Rightarrow>
                    map_option (\<lambda>v. (v, position self - position v)) (right_back ct self))
      in case vd of
           None \<Rightarrow> True
         | Some (v, d) \<Rightarrow> d > max (length_v v) (HV_K self * safe_distance v))"

text \<open>
  \<^verbatim>\<open>prob_left\<close> returns the integer 0, a float, or (Python 3: a negative float raised to
  the power \<^verbatim>\<open>3/4\<close>) a complex number, whose comparison with the draw raises
  \<^verbatim>\<open>TypeError\<close> later.
\<close>

datatype pynum = PFloat real | PComplex

definition prob_left ::
  "vehicle \<Rightarrow> container \<Rightarrow> conf \<Rightarrow> real option \<Rightarrow> real option \<Rightarrow> real option \<Rightarrow>
   real option \<Rightarrow> real option \<Rightarrow> real option \<Rightarrow> real option \<Rightarrow> py_error + pynum" where
  "prob_left self ct cf af vf df dlf vlf dlb vlb =
     (case df of
        None \<Rightarrow> Inr (PFloat 0)
      | Some d \<Rightarrow>
          (case
             py_and (Inr (d \<noteq> 0))
            (py_and (Inr (d < HV_K1 self * safe_distance self))
            (py_and (py_or (Inr (desired_velocity self - velocity self > epsilon self))
                           (case vf of None \<Rightarrow> Inl TypeError
                            | Some vf' \<Rightarrow> Inr (desired_velocity self - vf' > epsilon self)))
            (py_and (Inr (enough_room self ct (Left, Front)))
            (py_and (Inr (enough_room self ct (Left, Back)))
            (py_and (case vlf of None \<Rightarrow> Inr True
                     | Some vlf' \<Rightarrow>
                         py_or (Inr (velocity self \<le> vlf'))
                               (ge_o dlf (HV_K1 self * safe_distance self)))
                    (case vlb of None \<Rightarrow> Inr True
                     | Some vlb' \<Rightarrow>
                         py_or (Inr (velocity self \<ge> vlb'))
                               (ge_o dlb (HV_K1 self * safe_distance self))))))))
           of
             Inl e \<Rightarrow> Inl e
           | Inr g \<Rightarrow>
               if g
               then (if safe_distance self / d < 0 then Inr PComplex
                     else Inr (PFloat ((safe_distance self / d) powr (3 / 4))))
               else Inr (PFloat 0)))"

definition prob_right ::
  "vehicle \<Rightarrow> container \<Rightarrow> conf \<Rightarrow> real option \<Rightarrow> real option \<Rightarrow> real option \<Rightarrow>
   real option \<Rightarrow> real option \<Rightarrow> real option \<Rightarrow> real option \<Rightarrow> py_error + real" where
  "prob_right self ct cf df vf db vrf drf vrb drb =
     (case
        py_and (case vrf of None \<Rightarrow> Inr True
                | Some vrf' \<Rightarrow>
                    py_or (Inr (velocity self - vrf' < epsilon self))
                          (gt_o drf (HV_K self * safe_distance self)))
       (py_and (Inr (enough_room self ct (Right, Front)))
               (Inr (enough_room self ct (Right, Back))))
      of
        Inl e \<Rightarrow> Inl e
      | Inr g \<Rightarrow> Inr (if g then 0.9 else 0))"

text \<open>
  \<^verbatim>\<open>HumanVehicle.calc_acceleration\<close>. The arguments are \<^verbatim>\<open>None\<close> when there is no vehicle
  in front; a float operation on \<^verbatim>\<open>None\<close> raises \<^verbatim>\<open>TypeError\<close>, a float division by zero
  raises \<^verbatim>\<open>ZeroDivisionError\<close>. \<^verbatim>\<open>af and af < self.acceleration\<close> is false for
  \<^verbatim>\<open>None\<close> and for \<^verbatim>\<open>0.0\<close>.
\<close>

definition HumanVehicle_calc_acceleration ::
  "vehicle \<Rightarrow> conf \<Rightarrow> real option \<Rightarrow> real option \<Rightarrow> real option \<Rightarrow> py_error + real" where
  "HumanVehicle_calc_acceleration self cf af vf df =
     (let acceleration_zone =
            (if desired_velocity self - velocity self = 0 then Inr 0
             else if desired_velocity self - velocity self < epsilon self
             then Inr (HV_A0 self)
             else if velocity self + 0.01 = 0 then Inl ZeroDivisionError
             else Inr (min (HV_AMAX self)
                         ((desired_velocity self - velocity self) / (velocity self + 0.01)
                            * HV_L self * HV_AMAX self)))
      in case df of
           None \<Rightarrow> acceleration_zone
         | Some d \<Rightarrow>
             if d \<ge> HV_K1 self * safe_distance self then acceleration_zone
             else if d < HV_K1 self * safe_distance self \<and> d > HV_K2 self * safe_distance self
             then (case vf of
                     None \<Rightarrow> Inl TypeError
                   | Some vf' \<Rightarrow>
                       if velocity self > vf'
                       then (if vf' + 0.01 = 0 then Inl ZeroDivisionError
                             else Inr (max (- HV_BRAKING self)
                                         ((vf' - velocity self) / (vf' + 0.01)
                                            * HV_L self * HV_BRAKING self)))
                       else if desired_velocity self - velocity self = 0 then Inr 0
                       else if desired_velocity self - velocity self < epsilon self
                       then Inr (HV_A0 self)
                       else if vf' + 0.01 = 0 then Inl ZeroDivisionError
                       else Inr (min (HV_AMAX self)
                                   ((vf' - velocity self) / (vf' + 0.01)
                                      * HV_L self * HV_AMAX self)))
             else if d < HV_K self * safe_distance self
                     \<and> (case af of None \<Rightarrow> False
                         | Some af' \<Rightarrow> af' \<noteq> 0 \<and> af' < acceleration self)
             then Inr (- HV_BRAKING self)
             else (case vf of
                     None \<Rightarrow> Inl TypeError
                   | Some vf' \<Rightarrow>
                       if velocity self > vf'
                       then (if safe_distance self = 0 then Inl ZeroDivisionError
                             else Inr (max (- HV_BRAKING self)
                                         (- (HV_BRAKING self / safe_distance self * d
                                              - HV_BRAKING self))))
                       else Inr (- 0.1)))"

text \<open>
  \<^verbatim>\<open>AutomaticCar.calc_acceleration\<close> changes \<^verbatim>\<open>self.velocity\<close> and \<^verbatim>\<open>self.safe_distance\<close>
  in its lock-in zone, so it returns the vehicle with the acceleration.
  The source tests \<^verbatim>\<open>np.absolute(self.velocity - vf < 1)\<close>: the absolute value is taken
  of the truth value of the comparison and is that truth value.
\<close>

definition AutomaticCar_calc_acceleration ::
  "vehicle \<Rightarrow> conf \<Rightarrow> real option \<Rightarrow> real option \<Rightarrow> real option
   \<Rightarrow> py_error + vehicle \<times> real" where
  "AutomaticCar_calc_acceleration self cf af vf df =
     (let acceleration_zone =
            (if desired_velocity self - velocity self = 0 then Inr (self, 0)
             else if desired_velocity self - velocity self < epsilon self
             then Inr (self, HV_A0 self)
             else if velocity self + 0.01 = 0 then Inl ZeroDivisionError
             else Inr (self, min (HV_AMAX self)
                         ((desired_velocity self - velocity self) / (velocity self + 0.01)
                            * HV_L self * HV_AMAX self)))
      in case df of
           None \<Rightarrow> acceleration_zone
         | Some d \<Rightarrow>
             if d \<ge> HV_K1 self * safe_distance self then acceleration_zone
             else if d < HV_K1 self * safe_distance self \<and> d > HV_K2 self * safe_distance self
             then (case vf of
                     None \<Rightarrow> Inl TypeError
                   | Some vf' \<Rightarrow>
                       if velocity self > vf'
                       then (if vf' + 0.01 = 0 then Inl ZeroDivisionError
                             else Inr (self, max (- HV_BRAKING self)
                                         ((vf' - velocity self) / (vf' + 0.01)
                                            * HV_L self * HV_BRAKING self)))
                       else if desired_velocity self - velocity self = 0 then Inr (self, 0)
                       else if desired_velocity self - velocity self < epsilon self
                       then Inr (self, HV_A0 self)
                       else if vf' + 0.01 = 0 then Inl ZeroDivisionError
                       else Inr (self, min (HV_AMAX self)
                                   ((vf' - velocity self) / (vf' + 0.01)
                                      * HV_L self * HV_AMAX self)))
             else (case
                     py_and (Inr (d < HV_K2 self * safe_distance self))
                    (py_and (Inr (d > HV_K3 self * safe_distance self))
                            (case vf of None \<Rightarrow> Inl TypeError
                             | Some vf' \<Rightarrow> Inr (\<bar>vf' - desired_velocity self\<bar> < 2)))
                   of
                     Inl e \<Rightarrow> Inl e
                   | Inr lock_in \<Rightarrow>
                       if lock_in
                       then (case vf of
                               None \<Rightarrow> Inl TypeError
                             | Some vf' \<Rightarrow>
                                 if velocity self - vf' < 1
                                 then Inr (self\<lparr> velocity := vf',
                                                 safe_distance :=
                                                   (if safe_distance self > 2
                                                    then safe_distance self - 1
                                                    else safe_distance self) \<rparr>, 0)
                                 else if velocity self + 0.001 = 0
                                 then Inl ZeroDivisionError
                                 else Inr (self, min (HV_AMAX self)
                                             ((vf' - velocity self) / (velocity self + 0.001)
                                                * HV_L2 self * HV_AMAX self)))
                       else if d < HV_K self * safe_distance self
                               \<and> (case af of None \<Rightarrow> False
                                   | Some af' \<Rightarrow> af' \<noteq> 0 \<and> af' < acceleration self)
                       then Inr (self, - HV_BRAKING self)
                       else (case vf of
                               None \<Rightarrow> Inl TypeError
                             | Some vf' \<Rightarrow>
                                 if velocity self > vf'
                                 then (if safe_distance self = 0 then Inl ZeroDivisionError
                                       else Inr (self, max (- HV_BRAKING self)
                                                   (- (HV_BRAKING self / safe_distance self * d
                                                        - HV_BRAKING self))))
                                 else Inr (self, - 0.1))))"

text \<open>Method dispatch: \<^verbatim>\<open>Car\<close> and \<^verbatim>\<open>Truck\<close> call the inherited method.\<close>

definition calc_acceleration ::
  "vehicle \<Rightarrow> conf \<Rightarrow> real option \<Rightarrow> real option \<Rightarrow> real option
   \<Rightarrow> py_error + vehicle \<times> real" where
  "calc_acceleration self cf af vf df =
     (case kind self of
        AutomaticCar \<Rightarrow> AutomaticCar_calc_acceleration self cf af vf df
      | _ \<Rightarrow> (case HumanVehicle_calc_acceleration self cf af vf df of
                Inl e \<Rightarrow> Inl e
              | Inr a \<Rightarrow> Inr (self, a)))"

text \<open>
  The lane change of \<^verbatim>\<open>HumanVehicle.update\<close> (the \<^verbatim>\<open>if\<close> under the comment
  \<^verbatim>\<open>NEW ONLY SWITCH ...\<close>). \<open>p\<close> is the draw \<^verbatim>\<open>np.random.rand()\<close>, \<open>now\<close> the reading of
  \<^verbatim>\<open>time.time()\<close> in the condition and \<open>now2\<close> the reading stored in
  \<^verbatim>\<open>last_lane_change\<close>. The event carries the lane the vehicle leaves.
\<close>

definition lane_change_block ::
  "conf \<Rightarrow> real \<Rightarrow> real \<Rightarrow> pynum \<Rightarrow> real \<Rightarrow> real \<Rightarrow>
   vehicle option \<Rightarrow> vehicle option \<Rightarrow> vehicle option \<Rightarrow> vehicle option \<Rightarrow>
   vehicle \<Rightarrow> py_error + vehicle \<times> event list" where
  "lane_change_block cf p p_right p_left now now2 veh_rf veh_rb veh_lf veh_lb self =
     (if speedup cf = 0 then Inl ZeroDivisionError
      else if now - last_lane_change self > 5.0 / speedup cf \<and> velocity self > 3
      then (if p < p_right
               \<and> lane self + 1 < nb_lanes cf
               \<and> position self > 3 * safe_distance self
               \<and> (case veh_rf of None \<Rightarrow> True
                   | Some rf \<Rightarrow> position rf - position self > safe_distance self)
               \<and> (case veh_rb of None \<Rightarrow> True
                   | Some rb \<Rightarrow> position self - position rb > safe_distance rb)
            then Inr (self\<lparr> lane := lane self + 1, last_lane_change := now2 \<rparr>,
                      [Notify_lane_change (lane self)])
            else (case p_left of
                    PComplex \<Rightarrow> Inl TypeError
                  | PFloat pl \<Rightarrow>
                      if p < pl
                         \<and> lane self > 0
                         \<and> position self > 3 * safe_distance self
                         \<and> (case veh_lf of None \<Rightarrow> True
                             | Some lf \<Rightarrow> position lf - position self > safe_distance self)
                         \<and> (case veh_lb of None \<Rightarrow> True
                             | Some lb \<Rightarrow> position self - position lb > safe_distance lb)
                      then Inr (self\<lparr> lane := lane self - 1, last_lane_change := now2 \<rparr>,
                                [Notify_lane_change (lane self)])
                      else Inr (self, [])))
      else Inr (self, []))"

text \<open>Python's \<^verbatim>\<open>round(x, 1)\<close> on the exact value: to the nearest tenth, a tie to the even
  tenth.\<close>

definition py_round1 :: "real \<Rightarrow> real" where
  "py_round1 x =
     (let y = x * 10; n = \<lfloor>y\<rfloor>
      in if y - of_int n < 1 / 2 then of_int n / 10
         else if y - of_int n > 1 / 2 then (of_int n + 1) / 10
         else if even n then of_int n / 10
         else (of_int n + 1) / 10)"

definition lane_animation :: "vehicle \<Rightarrow> vehicle" where
  "lane_animation self =
     (if \<bar>animlane self - of_int (lane self)\<bar> > 0.1
      then (if animlane self < of_int (lane self)
            then self\<lparr> animlane := py_round1 (animlane self + 0.1) \<rparr>
            else self\<lparr> animlane := py_round1 (animlane self - 0.1) \<rparr>)
      else self\<lparr> animlane := of_int (lane self) \<rparr>)"

text \<open>
  \<^verbatim>\<open>HumanVehicle.update\<close>, which \<^verbatim>\<open>Car\<close>, \<^verbatim>\<open>Truck\<close> and \<^verbatim>\<open>AutomaticCar\<close> call unchanged.
  An exception ends the update (and the program: the driver loop does not catch it).
\<close>

definition HumanVehicle_update ::
  "conf \<Rightarrow> container \<Rightarrow> real \<Rightarrow> real \<Rightarrow> real \<Rightarrow> real \<Rightarrow> vehicle
   \<Rightarrow> py_error + vehicle \<times> event list" where
  "HumanVehicle_update cf ct dt p now now2 self0 =
     (let (self1, evs) = Vehicle_update cf ct dt self0;
          self2 = self1\<lparr> velocity := min (desired_velocity self1) (velocity self1) \<rparr>;
          self = self2\<lparr> safe_distance :=
                          max (extremely_safe_distance self2)
                              (velocity self2 * safe_time self2) \<rparr>;
          veh_f = front ct self;
          af = map_option acceleration veh_f;
          vf = map_option velocity veh_f;
          df = map_option (\<lambda>u. position u - position self) veh_f;
          veh_b = back_v ct self;
          db = map_option (\<lambda>u. position self - position u) veh_b;
          veh_lf = left_front ct self;
          vlf = map_option velocity veh_lf;
          dlf = map_option (\<lambda>u. position u - position self) veh_lf;
          veh_lb = left_back ct self;
          vlb = map_option velocity veh_lb;
          dlb = map_option (\<lambda>u. position self - position u) veh_lb;
          veh_rf = right_front ct self;
          vrf = map_option velocity veh_rf;
          drf = map_option (\<lambda>u. position u - position self) veh_rf;
          veh_rb = right_back ct self;
          drb = map_option (\<lambda>u. position self - position u) veh_rb;
          vrb = map_option velocity veh_rb
      in case prob_right self ct cf df vf db vrf drf vrb drb of
           Inl e \<Rightarrow> Inl e
         | Inr p_right \<Rightarrow>
        (case prob_left self ct cf af vf df dlf vlf dlb vlb of
           Inl e \<Rightarrow> Inl e
         | Inr p_left \<Rightarrow>
        (case lane_change_block cf p p_right p_left now now2
                veh_rf veh_rb veh_lf veh_lb self of
           Inl e \<Rightarrow> Inl e
         | Inr (self3, evs2) \<Rightarrow>
        (case calc_acceleration (lane_animation self3) cf af vf df of
           Inl e \<Rightarrow> Inl e
         | Inr (self4, acc) \<Rightarrow>
             Inr (self4\<lparr> acceleration := min (HV_AMAX self4) acc \<rparr>, evs @ evs2)))))"

text \<open>The vehicle as the first three statements of \<^verbatim>\<open>HumanVehicle.update\<close> leave it:
  moved, velocity capped by \<^verbatim>\<open>desired_velocity\<close>, \<^verbatim>\<open>safe_distance\<close> recomputed.\<close>

definition after_kinematics :: "conf \<Rightarrow> container \<Rightarrow> real \<Rightarrow> vehicle \<Rightarrow> vehicle" where
  "after_kinematics cf ct dt self0 =
     (let self1 = fst (Vehicle_update cf ct dt self0);
          self2 = self1\<lparr> velocity := min (desired_velocity self1) (velocity self1) \<rparr>
      in self2\<lparr> safe_distance :=
                  max (extremely_safe_distance self2) (velocity self2 * safe_time self2) \<rparr>)"

section \<open>Neighbour snapshots of the examples\<close>

definition no_neighbours :: container where
  "no_neighbours =
     \<lparr> front = (\<lambda>_. None), back_v = (\<lambda>_. None),
       left_front = (\<lambda>_. None), left_back = (\<lambda>_. None),
       right_front = (\<lambda>_. None), right_back = (\<lambda>_. None) \<rparr>"

definition only_front :: "vehicle \<Rightarrow> container" where
  "only_front f = no_neighbours\<lparr> front := (\<lambda>_. Some f) \<rparr>"

text \<open>
  Vehicles and a configuration for the examples: a \<^verbatim>\<open>Car\<close> with the draws
  \<^verbatim>\<open>HV_L = 1\<close>, \<^verbatim>\<open>HV_AMAX = 3\<close>, \<^verbatim>\<open>desired_velocity = 32\<close>, \<^verbatim>\<open>epsilon = 5\<close>, and an
  \<^verbatim>\<open>AutomaticCar\<close> with \<^verbatim>\<open>HV_AMAX = 3\<close>, \<^verbatim>\<open>desired_velocity = 30\<close>, \<^verbatim>\<open>epsilon = 5\<close>,
  both constructed at time 0 and then moving at the given velocity; three lanes as in
  \<^verbatim>\<open>main.py\<close>.
\<close>

definition ex_car :: "int \<Rightarrow> real \<Rightarrow> real \<Rightarrow> real \<Rightarrow> vehicle" where
  "ex_car la pos esd vel = (Car_init la pos 1 3 esd 32 5 0)\<lparr> velocity := vel \<rparr>"

definition ex_auto :: "int \<Rightarrow> real \<Rightarrow> real \<Rightarrow> vehicle" where
  "ex_auto la pos vel = (AutomaticCar_init la pos 3 30 5 0)\<lparr> velocity := vel \<rparr>"

definition ex_conf :: conf where
  "ex_conf = \<lparr> nb_lanes = 3, fps = 30, speedup = 1, sound = False \<rparr>"

section \<open>Structure of an update\<close>

text \<open>
  \<open>HumanVehicle_update\<close> read as a sequence: the kinematics, the two probabilities, the
  lane change, the lane animation, then \<^verbatim>\<open>calc_acceleration\<close> on the neighbour data
  read before the lane change.
\<close>

lemma HumanVehicle_update_unfold:
  "HumanVehicle_update cf ct dt p now now2 v =
     (let s = after_kinematics cf ct dt v;
          af = map_option acceleration (front ct s);
          vf = map_option velocity (front ct s);
          df = map_option (\<lambda>u. position u - position s) (front ct s)
      in case prob_right s ct cf df vf
                (map_option (\<lambda>u. position s - position u) (back_v ct s))
                (map_option velocity (right_front ct s))
                (map_option (\<lambda>u. position u - position s) (right_front ct s))
                (map_option velocity (right_back ct s))
                (map_option (\<lambda>u. position s - position u) (right_back ct s)) of
           Inl e \<Rightarrow> Inl e
         | Inr p_right \<Rightarrow>
        (case prob_left s ct cf af vf df
                (map_option (\<lambda>u. position u - position s) (left_front ct s))
                (map_option velocity (left_front ct s))
                (map_option (\<lambda>u. position s - position u) (left_back ct s))
                (map_option velocity (left_back ct s)) of
           Inl e \<Rightarrow> Inl e
         | Inr p_left \<Rightarrow>
        (case lane_change_block cf p p_right p_left now now2
                (right_front ct s) (right_back ct s) (left_front ct s) (left_back ct s) s of
           Inl e \<Rightarrow> Inl e
         | Inr (s3, evs2) \<Rightarrow>
        (case calc_acceleration (lane_animation s3) cf af vf df of
           Inl e \<Rightarrow> Inl e
         | Inr (s4, acc) \<Rightarrow>
             Inr (s4\<lparr> acceleration := min (HV_AMAX s4) acc \<rparr>,
                  snd (Vehicle_update cf ct dt v) @ evs2)))))"
  unfolding HumanVehicle_update_def after_kinematics_def Let_def case_prod_beta by (rule refl)

lemma HumanVehicle_update_InrD:
  assumes "HumanVehicle_update cf ct dt p now now2 v = Inr (r, evs)"
  obtains p_right p_left s3 evs2 s4 acc where
    "prob_right (after_kinematics cf ct dt v) ct cf
        (map_option (\<lambda>u. position u - position (after_kinematics cf ct dt v))
           (front ct (after_kinematics cf ct dt v)))
        (map_option velocity (front ct (after_kinematics cf ct dt v)))
        (map_option (\<lambda>u. position (after_kinematics cf ct dt v) - position u)
           (back_v ct (after_kinematics cf ct dt v)))
        (map_option velocity (right_front ct (after_kinematics cf ct dt v)))
        (map_option (\<lambda>u. position u - position (after_kinematics cf ct dt v))
           (right_front ct (after_kinematics cf ct dt v)))
        (map_option velocity (right_back ct (after_kinematics cf ct dt v)))
        (map_option (\<lambda>u. position (after_kinematics cf ct dt v) - position u)
           (right_back ct (after_kinematics cf ct dt v))) = Inr p_right"
    "prob_left (after_kinematics cf ct dt v) ct cf
        (map_option acceleration (front ct (after_kinematics cf ct dt v)))
        (map_option velocity (front ct (after_kinematics cf ct dt v)))
        (map_option (\<lambda>u. position u - position (after_kinematics cf ct dt v))
           (front ct (after_kinematics cf ct dt v)))
        (map_option (\<lambda>u. position u - position (after_kinematics cf ct dt v))
           (left_front ct (after_kinematics cf ct dt v)))
        (map_option velocity (left_front ct (after_kinematics cf ct dt v)))
        (map_option (\<lambda>u. position (after_kinematics cf ct dt v) - position u)
           (left_back ct (after_kinematics cf ct dt v)))
        (map_option velocity (left_back ct (after_kinematics cf ct dt v))) = Inr p_left"
    "lane_change_block cf p p_right p_left now now2
        (right_front ct (after_kinematics cf ct dt v)) (right_back ct (after_kinematics cf ct dt v))
        (left_front ct (after_kinematics cf ct dt v)) (left_back ct (after_kinematics cf ct dt v))
        (after_kinematics cf ct dt v) = Inr (s3, evs2)"
    "calc_acceleration (lane_animation s3) cf
        (map_option acceleration (front ct (after_kinematics cf ct dt v)))
        (map_option velocity (front ct (after_kinematics cf ct dt v)))
        (map_option (\<lambda>u. position u - position (after_kinematics cf ct dt v))
           (front ct (after_kinematics cf ct dt v))) = Inr (s4, acc)"
    "r = s4\<lparr> acceleration := min (HV_AMAX s4) acc \<rparr>"
    "evs = snd (Vehicle_update cf ct dt v) @ evs2"
  using assms unfolding HumanVehicle_update_unfold Let_def
  by (auto split: sum.splits prod.splits)

lemma lane_change_block_InrD:
  assumes "lane_change_block cf p pr pl now now2 rf rb lf lb s = Inr (s3, evs2)"
  shows "(s3 = s \<and> evs2 = []) \<or>
         (s3 = s\<lparr> lane := lane s + 1, last_lane_change := now2 \<rparr> \<and> evs2 = [Notify_lane_change (lane s)]) \<or>
         (s3 = s\<lparr> lane := lane s - 1, last_lane_change := now2 \<rparr> \<and> evs2 = [Notify_lane_change (lane s)])"
  using assms unfolding lane_change_block_def
  by (auto split: if_splits pynum.splits)

lemma lane_change_block_closed:
  assumes "lane_change_block cf p pr pl now now2 rf rb lf lb s = Inr (s3, evs2)"
    and "velocity s \<le> 3 \<or> now - last_lane_change s \<le> 5 / speedup cf"
  shows "s3 = s \<and> evs2 = []"
  using assms unfolding lane_change_block_def
  by (auto split: if_splits pynum.splits)

lemma lane_animation_eq: "lane_animation s = s\<lparr> animlane := animlane (lane_animation s) \<rparr>"
  by (simp add: lane_animation_def)

lemma calc_acceleration_InrD:
  assumes "calc_acceleration s cf af vf df = Inr (s4, acc)"
  shows "s4 = s \<or>
         (kind s = AutomaticCar \<and>
          (\<exists>vf'. vf = Some vf' \<and> velocity s - vf' < 1 \<and> \<bar>vf' - desired_velocity s\<bar> < 2 \<and>
             s4 = s\<lparr> velocity := vf',
                      safe_distance := (if safe_distance s > 2 then safe_distance s - 1
                                        else safe_distance s) \<rparr> \<and>
             acc = 0))"
  using assms unfolding calc_acceleration_def AutomaticCar_calc_acceleration_def Let_def py_and_def
  by (auto split: vkind.splits sum.splits option.splits if_splits)

lemma Vehicle_update_position:
  "position (fst (Vehicle_update cf ct dt v)) =
     (case front ct v of
        None \<Rightarrow> position v + dt * velocity v + 0.5 * dt * dt * acceleration v
      | Some f \<Rightarrow>
          if \<bar>position f - (position v + dt * velocity v + 0.5 * dt * dt * acceleration v)\<bar>
               < 0.99 * extremely_safe_distance v
          then position f - extremely_safe_distance v
          else position v + dt * velocity v + 0.5 * dt * dt * acceleration v)"
  by (simp add: Vehicle_update_def Let_def split: option.splits)

lemma Vehicle_update_velocity:
  "velocity (fst (Vehicle_update cf ct dt v)) =
     (case front ct v of
        None \<Rightarrow> max 0 (velocity v + acceleration v * dt)
      | Some f \<Rightarrow>
          if \<bar>position f - (position v + dt * velocity v + 0.5 * dt * dt * acceleration v)\<bar>
               < 0.99 * extremely_safe_distance v
          then velocity f
          else max 0 (velocity v + acceleration v * dt))"
  by (simp add: Vehicle_update_def Let_def split: option.splits)

lemma Vehicle_update_unchanged:
  "extremely_safe_distance (fst (Vehicle_update cf ct dt v)) = extremely_safe_distance v"
  "desired_velocity (fst (Vehicle_update cf ct dt v)) = desired_velocity v"
  "lane (fst (Vehicle_update cf ct dt v)) = lane v"
  "last_lane_change (fst (Vehicle_update cf ct dt v)) = last_lane_change v"
  "kind (fst (Vehicle_update cf ct dt v)) = kind v"
  "safe_time (fst (Vehicle_update cf ct dt v)) = safe_time v"
  by (simp_all add: Vehicle_update_def Let_def split: option.splits)

lemma after_kinematics_fields:
  "velocity (after_kinematics cf ct dt v) =
     min (desired_velocity v) (velocity (fst (Vehicle_update cf ct dt v)))"
  "position (after_kinematics cf ct dt v) = position (fst (Vehicle_update cf ct dt v))"
  "extremely_safe_distance (after_kinematics cf ct dt v) = extremely_safe_distance v"
  "desired_velocity (after_kinematics cf ct dt v) = desired_velocity v"
  "lane (after_kinematics cf ct dt v) = lane v"
  "last_lane_change (after_kinematics cf ct dt v) = last_lane_change v"
  "kind (after_kinematics cf ct dt v) = kind v"
  "safe_distance (after_kinematics cf ct dt v) =
     max (extremely_safe_distance v)
         (min (desired_velocity v) (velocity (fst (Vehicle_update cf ct dt v))) * safe_time v)"
  by (simp_all add: after_kinematics_def Let_def Vehicle_update_unchanged)

section \<open>The gap to the vehicle in front (C1)\<close>

text \<open>
  A car at position 0 with \<^verbatim>\<open>extremely_safe_distance = 2.5\<close> moves at 32 m/s; the vehicle in
  front of it stands at position 0.5. With \<^verbatim>\<open>dt = 0.1\<close> the new position is 3.2, which is
  2.7 beyond the vehicle in front: the absolute distance is not below \<open>0.99 * 2.5\<close>, there
  is no emergency speed change, and the gap after the update is \<open>- 2.7\<close>.
\<close>

theorem gap_below_esd_counterexample:
  "front (only_front (ex_car 0 0.5 2.5 0)) (ex_car 0 0 2.5 32) = Some (ex_car 0 0.5 2.5 0)
   \<and> position (ex_car 0 0 2.5 32) < position (ex_car 0 0.5 2.5 0)
   \<and> position (ex_car 0 0.5 2.5 0)
         - position (fst (Vehicle_update ex_conf (only_front (ex_car 0 0.5 2.5 0)) 0.1
                            (ex_car 0 0 2.5 32)))
       < 0.99 * extremely_safe_distance
                  (fst (Vehicle_update ex_conf (only_front (ex_car 0 0.5 2.5 0)) 0.1
                            (ex_car 0 0 2.5 32)))"
  by (simp add: Vehicle_update_def only_front_def no_neighbours_def ex_car_def Car_init_def)

text \<open>
  Claim C1, as the code has it: when a vehicle has a vehicle in front in its lane and its
  \<^verbatim>\<open>extremely_safe_distance\<close> is not negative, then after \<^verbatim>\<open>Vehicle.update\<close> the absolute
  distance between the two positions is at least 0.99 times \<^verbatim>\<open>extremely_safe_distance\<close>;
  the signed gap (front position minus own position) is at least that much unless the
  position integrated from the old velocity and acceleration lies 0.99 times
  \<^verbatim>\<open>extremely_safe_distance\<close> or more beyond the position of the vehicle in front.
\<close>

theorem gap_after_update:
  assumes "front ct v = Some f" and "0 \<le> extremely_safe_distance v"
  shows "0.99 * extremely_safe_distance (fst (Vehicle_update cf ct dt v))
           \<le> \<bar>position f - position (fst (Vehicle_update cf ct dt v))\<bar>
         \<and> (position v + dt * velocity v + 0.5 * dt * dt * acceleration v
                < position f + 0.99 * extremely_safe_distance v
              \<longrightarrow> 0.99 * extremely_safe_distance (fst (Vehicle_update cf ct dt v))
                    \<le> position f - position (fst (Vehicle_update cf ct dt v)))"
  using assms
  by (auto simp: Vehicle_update_position Vehicle_update_unchanged abs_if split: if_splits)

theorem gap_after_update_witness:
  "0.99 * extremely_safe_distance
            (fst (Vehicle_update ex_conf (only_front (ex_car 0 5 4 0)) 0.1 (ex_car 0 0 4 20)))
     \<le> position (ex_car 0 5 4 0)
         - position (fst (Vehicle_update ex_conf (only_front (ex_car 0 5 4 0)) 0.1
                            (ex_car 0 0 4 20)))"
  using gap_after_update [where ct = "only_front (ex_car 0 5 4 0)" and v = "ex_car 0 0 4 20"
      and f = "ex_car 0 5 4 0" and dt = "0.1" and cf = ex_conf]
  by (simp add: only_front_def no_neighbours_def ex_car_def Car_init_def)

section \<open>The emergency speed change (C4)\<close>

text \<open>
  Claim C4: when there is a vehicle in front in the same lane and the absolute distance
  between its position and the integrated new position is below 0.99 times
  \<^verbatim>\<open>extremely_safe_distance\<close>, \<^verbatim>\<open>Vehicle.update\<close> sets the velocity and the acceleration to
  those of the vehicle in front, the position to the front position minus
  \<^verbatim>\<open>extremely_safe_distance\<close>, and the emergency countdown to \<^verbatim>\<open>conf.fps\<close>. The witness is
  the scenario of the specification: the vehicle in front stands at position 5, the vehicle
  itself is at position 0 with \<^verbatim>\<open>extremely_safe_distance = 4\<close>; afterwards its position is 1,
  its velocity 0 and its countdown \<^verbatim>\<open>fps\<close>.
\<close>

theorem emergency_correction:
  assumes "front ct v = Some f"
    and "\<bar>position f - (position v + dt * velocity v + 0.5 * dt * dt * acceleration v)\<bar>
           < 0.99 * extremely_safe_distance v"
  shows "Vehicle_update cf ct dt v =
           (v\<lparr> velocity := velocity f, acceleration := acceleration f,
                position := position f - extremely_safe_distance v,
                emergency := fps cf \<rparr>,
            Warning_printed # (if sound cf then [Scream_played] else []))"
  using assms by (simp add: Vehicle_update_def)

theorem emergency_correction_witness:
  "position (fst (Vehicle_update ex_conf (only_front (ex_car 0 5 4 0)) 0.1 (ex_car 0 0 4 20))) = 1
   \<and> velocity (fst (Vehicle_update ex_conf (only_front (ex_car 0 5 4 0)) 0.1 (ex_car 0 0 4 20))) = 0
   \<and> emergency (fst (Vehicle_update ex_conf (only_front (ex_car 0 5 4 0)) 0.1 (ex_car 0 0 4 20)))
       = fps ex_conf"
  using emergency_correction [where ct = "only_front (ex_car 0 5 4 0)"
      and v = "ex_car 0 0 4 20" and f = "ex_car 0 5 4 0" and dt = "0.1" and cf = ex_conf]
  by (simp add: only_front_def no_neighbours_def ex_car_def Car_init_def)

lemma Vehicle_update_velocity_nonneg:
  assumes "\<And>u. front ct v = Some u \<Longrightarrow> 0 \<le> velocity u"
  shows "0 \<le> velocity (fst (Vehicle_update cf ct dt v))"
  using assms by (simp add: Vehicle_update_velocity split: option.splits)

lemma lane_animation_fields:
  "velocity (lane_animation s) = velocity s"
  "lane (lane_animation s) = lane s"
  "safe_distance (lane_animation s) = safe_distance s"
  "extremely_safe_distance (lane_animation s) = extremely_safe_distance s"
  "kind (lane_animation s) = kind s"
  "position (lane_animation s) = position s"
  "last_lane_change (lane_animation s) = last_lane_change s"
  "emergency (lane_animation s) = emergency s"
  "HV_AMAX (lane_animation s) = HV_AMAX s"
  "desired_velocity (lane_animation s) = desired_velocity s"
  by (simp_all add: lane_animation_def)

section \<open>The velocity is never negative (C2)\<close>

text \<open>
  Claim C2: when the update of a vehicle returns, its velocity is at least 0, provided that
  the velocity of every vehicle the container reports in front of it is at least 0. The
  vehicle's \<^verbatim>\<open>desired_velocity\<close> is assumed not to be negative: every constructor draws it
  from a positive range and no method assigns it.
\<close>

theorem velocity_nonneg_after_update:
  assumes "HumanVehicle_update cf ct dt p now now2 v = Inr (v', evs)"
    and "0 \<le> desired_velocity v"
    and "\<forall>w u. front ct w = Some u \<longrightarrow> 0 \<le> velocity u"
  shows "0 \<le> velocity v'"
proof -
  let ?s = "after_kinematics cf ct dt v"
  from assms(3) have "0 \<le> velocity (fst (Vehicle_update cf ct dt v))"
    by (intro Vehicle_update_velocity_nonneg) blast
  with assms(2) have s: "0 \<le> velocity ?s"
    by (simp add: after_kinematics_fields)
  from assms(1) obtain p_right p_left s3 evs2 s4 acc where
    lc: "lane_change_block cf p p_right p_left now now2
           (right_front ct ?s) (right_back ct ?s) (left_front ct ?s) (left_back ct ?s) ?s
         = Inr (s3, evs2)"
    and ca: "calc_acceleration (lane_animation s3) cf
               (map_option acceleration (front ct ?s)) (map_option velocity (front ct ?s))
               (map_option (\<lambda>u. position u - position ?s) (front ct ?s)) = Inr (s4, acc)"
    and r: "v' = s4\<lparr> acceleration := min (HV_AMAX s4) acc \<rparr>"
    by (rule HumanVehicle_update_InrD)
  from lane_change_block_InrD [OF lc] have "velocity s3 = velocity ?s"
    by auto
  with s have s3: "0 \<le> velocity (lane_animation s3)"
    by (simp add: lane_animation_fields)
  from calc_acceleration_InrD [OF ca] consider "s4 = lane_animation s3"
    | vf' where "map_option velocity (front ct ?s) = Some vf'" and "velocity s4 = vf'"
    by auto
  then have "0 \<le> velocity s4"
  proof cases
    case 1
    with s3 show ?thesis by simp
  next
    case 2
    then obtain u where u: "front ct ?s = Some u" and vu: "velocity u = vf'" by auto
    from assms(3) u have "0 \<le> velocity u" by blast
    with 2 vu show ?thesis by simp
  qed
  with r show ?thesis by simp
qed

theorem velocity_nonneg_after_update_witness:
  "HumanVehicle_update ex_conf (only_front (ex_car 0 5 4 0)) 0.1 0.5 1 1 (ex_car 0 0 4 20)
     = Inr ((ex_car 0 0 4 20)\<lparr> position := 1, velocity := 0, emergency := 30,
              safe_distance := 4, animlane := 0, acceleration := - 0.1 \<rparr>, [Warning_printed])
   \<and> 0 \<le> desired_velocity (ex_car 0 0 4 20)
   \<and> 0 \<le> velocity (ex_car 0 5 4 0)
   \<and> 0 \<le> velocity ((ex_car 0 0 4 20)\<lparr> position := 1, velocity := 0, emergency := 30,
              safe_distance := 4, animlane := 0, acceleration := - 0.1 \<rparr>)"
proof -
  have run: "HumanVehicle_update ex_conf (only_front (ex_car 0 5 4 0)) 0.1 0.5 1 1 (ex_car 0 0 4 20)
     = Inr ((ex_car 0 0 4 20)\<lparr> position := 1, velocity := 0, emergency := 30,
              safe_distance := 4, animlane := 0, acceleration := - 0.1 \<rparr>, [Warning_printed])"
    by (simp add: HumanVehicle_update_def Vehicle_update_def prob_right_def prob_left_def
        enough_room_def py_and_def py_or_def lane_change_block_def lane_animation_def
        calc_acceleration_def HumanVehicle_calc_acceleration_def
        only_front_def no_neighbours_def ex_car_def ex_conf_def Car_init_def Let_def)
  have dv: "0 \<le> desired_velocity (ex_car 0 0 4 20)"
    by (simp add: ex_car_def Car_init_def)
  have nb: "\<forall>w u. front (only_front (ex_car 0 5 4 0)) w = Some u \<longrightarrow> 0 \<le> velocity u"
    by (simp add: only_front_def no_neighbours_def ex_car_def Car_init_def)
  from velocity_nonneg_after_update [OF run dv nb] run dv show ?thesis
    by (simp add: ex_car_def Car_init_def)
qed

section \<open>When the lane does not change (C8)\<close>

text \<open>
  Claim C8: in an update that returns, the lane is unchanged when the velocity after the cap
  by \<^verbatim>\<open>desired_velocity\<close> is at most 3, and when the clock reading is within
  \<^verbatim>\<open>5.0 / conf.speedup\<close> of \<^verbatim>\<open>last_lane_change\<close>; the lane moves by at most one, and the
  container is notified once for a lane change and not at all otherwise.
\<close>

theorem lane_change_suppression:
  assumes "HumanVehicle_update cf ct dt p now now2 v = Inr (v', evs)"
  shows "(velocity (after_kinematics cf ct dt v) \<le> 3 \<longrightarrow> lane v' = lane v)
         \<and> (now - last_lane_change v \<le> 5.0 / speedup cf \<longrightarrow> lane v' = lane v)
         \<and> \<bar>lane v' - lane v\<bar> \<le> 1
         \<and> length (filter (\<lambda>e. e = Notify_lane_change (lane v)) evs) = nat \<bar>lane v' - lane v\<bar>"
proof -
  let ?s = "after_kinematics cf ct dt v"
  from assms obtain p_right p_left s3 evs2 s4 acc where
    lc: "lane_change_block cf p p_right p_left now now2
           (right_front ct ?s) (right_back ct ?s) (left_front ct ?s) (left_back ct ?s) ?s
         = Inr (s3, evs2)"
    and ca: "calc_acceleration (lane_animation s3) cf
               (map_option acceleration (front ct ?s)) (map_option velocity (front ct ?s))
               (map_option (\<lambda>u. position u - position ?s) (front ct ?s)) = Inr (s4, acc)"
    and r: "v' = s4\<lparr> acceleration := min (HV_AMAX s4) acc \<rparr>"
    and e: "evs = snd (Vehicle_update cf ct dt v) @ evs2"
    by (rule HumanVehicle_update_InrD)
  from calc_acceleration_InrD [OF ca] have "lane s4 = lane s3"
    by (auto simp: lane_animation_fields)
  with r have l: "lane v' = lane s3" by simp
  have k: "filter (\<lambda>e. e = Notify_lane_change (lane v)) (snd (Vehicle_update cf ct dt v)) = []"
    by (simp add: Vehicle_update_def Let_def split: option.splits)
  have g1: "lane s3 = lane v" if "velocity ?s \<le> 3"
    using lane_change_block_closed [OF lc] that by (simp add: after_kinematics_fields)
  have g2: "lane s3 = lane v" if "now - last_lane_change v \<le> 5.0 / speedup cf"
    using lane_change_block_closed [OF lc] that by (simp add: after_kinematics_fields)
  have g3: "\<bar>lane s3 - lane v\<bar> \<le> 1
      \<and> length (filter (\<lambda>e. e = Notify_lane_change (lane v)) evs2) = nat \<bar>lane s3 - lane v\<bar>"
    using lane_change_block_InrD [OF lc] by (auto simp: after_kinematics_fields)
  from l g1 g2 g3 k e show ?thesis by simp
qed

theorem lane_change_suppression_witness:
  "velocity (after_kinematics ex_conf no_neighbours 0.1 (ex_car 0 100 4 2)) \<le> 3
   \<and> lane (fst (projr (HumanVehicle_update ex_conf no_neighbours 0.1 0.5 10 10
                         (ex_car 0 100 4 2)))) = lane (ex_car 0 100 4 2)
   \<and> 4 - last_lane_change (ex_car 0 100 4 20) \<le> 5.0 / speedup ex_conf
   \<and> lane (fst (projr (HumanVehicle_update ex_conf no_neighbours 0.1 0.5 4 4
                         (ex_car 0 100 4 20)))) = lane (ex_car 0 100 4 20)
   \<and> lane (fst (projr (HumanVehicle_update ex_conf no_neighbours 0.1 0.5 10 10
                         (ex_car 0 100 4 20)))) = lane (ex_car 0 100 4 20) + 1
   \<and> snd (projr (HumanVehicle_update ex_conf no_neighbours 0.1 0.5 10 10
                    (ex_car 0 100 4 20))) = [Notify_lane_change 0]"
proof -
  note defs = HumanVehicle_update_def Vehicle_update_def prob_right_def prob_left_def
    enough_room_def py_and_def py_or_def lane_change_block_def lane_animation_def
    calc_acceleration_def HumanVehicle_calc_acceleration_def after_kinematics_def
    py_round1_def no_neighbours_def ex_car_def ex_conf_def Car_init_def Let_def
  have slow: "HumanVehicle_update ex_conf no_neighbours 0.1 0.5 10 10 (ex_car 0 100 4 2)
     = Inr ((ex_car 0 100 4 2)\<lparr> position := 100.2, safe_distance := 4,
              animlane := 0, acceleration := 3 \<rparr>, [])"
    by (simp add: defs)
  have cooling: "HumanVehicle_update ex_conf no_neighbours 0.1 0.5 4 4 (ex_car 0 100 4 20)
     = Inr ((ex_car 0 100 4 20)\<lparr> position := 102, safe_distance := 18,
              animlane := 0, acceleration := 1200 / 667 \<rparr>, [])"
    by (simp add: defs)
  have changing: "HumanVehicle_update ex_conf no_neighbours 0.1 0.5 10 10 (ex_car 0 100 4 20)
     = Inr ((ex_car 0 100 4 20)\<lparr> position := 102, safe_distance := 18, lane := 1,
              last_lane_change := 10, animlane := 0.1, acceleration := 1200 / 667 \<rparr>,
            [Notify_lane_change 0])"
    by (simp add: defs)
  have a: "velocity (after_kinematics ex_conf no_neighbours 0.1 (ex_car 0 100 4 2)) \<le> 3"
    by (simp add: defs)
  have b: "4 - last_lane_change (ex_car 0 100 4 20) \<le> 5.0 / speedup ex_conf"
    by (simp add: defs)
  from lane_change_suppression [OF slow] lane_change_suppression [OF cooling] a b
  show ?thesis
    unfolding slow cooling changing by (simp add: ex_car_def Car_init_def)
qed

section \<open>The boundary of the acceleration zone (C9)\<close>

text \<open>
  Claim C9: with a vehicle in front at a gap of exactly \<^verbatim>\<open>HV_K1 * safe_distance\<close>, both
  \<^verbatim>\<open>calc_acceleration\<close> methods apply the rule of the acceleration zone, whatever the
  velocity and acceleration of the vehicle in front are. The witness shows the rule of
  the adaptive zone taking over a tenth of a metre below that gap.
\<close>

theorem boundary_K1_is_acceleration_zone:
  "HumanVehicle_calc_acceleration v cf af vf (Some (HV_K1 v * safe_distance v)) =
     (if desired_velocity v - velocity v = 0 then Inr 0
      else if desired_velocity v - velocity v < epsilon v then Inr (HV_A0 v)
      else if velocity v + 0.01 = 0 then Inl ZeroDivisionError
      else Inr (min (HV_AMAX v)
                  ((desired_velocity v - velocity v) / (velocity v + 0.01)
                     * HV_L v * HV_AMAX v)))
   \<and> AutomaticCar_calc_acceleration v cf af vf (Some (HV_K1 v * safe_distance v)) =
     (if desired_velocity v - velocity v = 0 then Inr (v, 0)
      else if desired_velocity v - velocity v < epsilon v then Inr (v, HV_A0 v)
      else if velocity v + 0.01 = 0 then Inl ZeroDivisionError
      else Inr (v, min (HV_AMAX v)
                  ((desired_velocity v - velocity v) / (velocity v + 0.01)
                     * HV_L v * HV_AMAX v)))"
  by (simp add: HumanVehicle_calc_acceleration_def AutomaticCar_calc_acceleration_def)

theorem boundary_K1_is_acceleration_zone_witness:
  "HumanVehicle_calc_acceleration ((ex_car 0 0 4 20)\<lparr> safe_distance := 18 \<rparr>) ex_conf
       (Some 0) (Some 10) (Some (3 * 18)) = Inr (1200 / 667)
   \<and> HumanVehicle_calc_acceleration ((ex_car 0 0 4 20)\<lparr> safe_distance := 18 \<rparr>) ex_conf
       (Some 0) (Some 10) (Some (3 * 18 - 1 / 10)) = Inr (- 9000 / 1001)"
  using boundary_K1_is_acceleration_zone [where v = "(ex_car 0 0 4 20)\<lparr> safe_distance := 18 \<rparr>"
      and cf = ex_conf and af = "Some 0" and vf = "Some 10"]
  by (simp add: ex_car_def Car_init_def HumanVehicle_calc_acceleration_def)

section \<open>The lock-in zone of \<^verbatim>\<open>AutomaticCar\<close> (C3)\<close>

text \<open>
  An automatic car at 30 m/s with \<^verbatim>\<open>safe_distance = 27\<close> follows a vehicle that also moves
  at 30 m/s, 40 m ahead: the gap is inside the lock-in zone and the velocities agree.
  \<^verbatim>\<open>safe_distance\<close> goes down to 26; \<^verbatim>\<open>extremely_safe_distance\<close> stays 4 and does not
  become 3. With the gap exactly \<^verbatim>\<open>HV_K2 * safe_distance = 48.6\<close> and the vehicle in front
  at 29.5 m/s, the rule of the braking zone applies: the velocity is not changed and the
  acceleration is \<open>- 7.2\<close>.
\<close>

theorem lock_in_esd_counterexample:
  "HV_K3 ((ex_auto 0 0 30)\<lparr> safe_distance := 27 \<rparr>)
       * safe_distance ((ex_auto 0 0 30)\<lparr> safe_distance := 27 \<rparr>) < 40
   \<and> 40 \<le> HV_K2 ((ex_auto 0 0 30)\<lparr> safe_distance := 27 \<rparr>)
              * safe_distance ((ex_auto 0 0 30)\<lparr> safe_distance := 27 \<rparr>)
   \<and> \<bar>30 - desired_velocity ((ex_auto 0 0 30)\<lparr> safe_distance := 27 \<rparr>)\<bar> < 2
   \<and> \<bar>velocity ((ex_auto 0 0 30)\<lparr> safe_distance := 27 \<rparr>) - 30\<bar> < 1
   \<and> 2 < extremely_safe_distance ((ex_auto 0 0 30)\<lparr> safe_distance := 27 \<rparr>)
   \<and> AutomaticCar_calc_acceleration ((ex_auto 0 0 30)\<lparr> safe_distance := 27 \<rparr>) ex_conf
         (Some 0) (Some 30) (Some 40)
       = Inr ((ex_auto 0 0 30)\<lparr> safe_distance := 26 \<rparr>, 0)
   \<and> extremely_safe_distance ((ex_auto 0 0 30)\<lparr> safe_distance := 26 \<rparr>)
       \<noteq> extremely_safe_distance ((ex_auto 0 0 30)\<lparr> safe_distance := 27 \<rparr>) - 1
   \<and> 486 / 10 \<le> HV_K2 ((ex_auto 0 0 30)\<lparr> safe_distance := 27 \<rparr>)
              * safe_distance ((ex_auto 0 0 30)\<lparr> safe_distance := 27 \<rparr>)
   \<and> \<bar>velocity ((ex_auto 0 0 30)\<lparr> safe_distance := 27 \<rparr>) - 59 / 2\<bar> < 1
   \<and> AutomaticCar_calc_acceleration ((ex_auto 0 0 30)\<lparr> safe_distance := 27 \<rparr>) ex_conf
         (Some 0) (Some (59 / 2)) (Some (486 / 10))
       = Inr ((ex_auto 0 0 30)\<lparr> safe_distance := 27 \<rparr>, - (72 / 10))"
  by (simp add: AutomaticCar_calc_acceleration_def py_and_def ex_auto_def AutomaticCar_init_def)

text \<open>
  Claim C3, as the code has it: for an automatic car whose gap to the vehicle in front is
  strictly between \<^verbatim>\<open>HV_K3 * safe_distance\<close> and \<^verbatim>\<open>HV_K2 * safe_distance\<close>, when the
  velocity of the vehicle in front is within 2 of \<^verbatim>\<open>desired_velocity\<close> and the own velocity
  within 1 of the velocity of the vehicle in front, \<^verbatim>\<open>calc_acceleration\<close> sets the velocity
  to that of the vehicle in front, returns the acceleration 0, and lowers \<^verbatim>\<open>safe_distance\<close>
  by 1 when it exceeds 2; \<^verbatim>\<open>extremely_safe_distance\<close> keeps its value.
\<close>

theorem lock_in_snap:
  assumes "HV_K3 v * safe_distance v < d" and "d < HV_K2 v * safe_distance v"
    and "HV_K2 v \<le> HV_K1 v" and "0 \<le> safe_distance v"
    and "\<bar>vf - desired_velocity v\<bar> < 2" and "\<bar>velocity v - vf\<bar> < 1"
  shows "AutomaticCar_calc_acceleration v cf af (Some vf) (Some d) =
           Inr (v\<lparr> velocity := vf,
                    safe_distance := (if safe_distance v > 2 then safe_distance v - 1
                                      else safe_distance v) \<rparr>, 0)"
proof -
  from assms(3,4) have "HV_K2 v * safe_distance v \<le> HV_K1 v * safe_distance v"
    by (rule mult_right_mono)
  with assms(2) have "d < HV_K1 v * safe_distance v" by simp
  moreover from assms(6) have "velocity v - vf < 1" by simp
  ultimately show ?thesis using assms(1,2,5)
    by (simp add: AutomaticCar_calc_acceleration_def py_and_def)
qed

theorem lock_in_snap_witness:
  "AutomaticCar_calc_acceleration ((ex_auto 0 0 30)\<lparr> safe_distance := 27 \<rparr>) ex_conf
       (Some 0) (Some 30) (Some 40)
     = Inr ((ex_auto 0 0 30)\<lparr> safe_distance := 26 \<rparr>, 0)"
  using lock_in_snap [where v = "(ex_auto 0 0 30)\<lparr> safe_distance := 27 \<rparr>" and d = 40
      and vf = 30 and cf = ex_conf and af = "Some 0"]
  by (simp add: ex_auto_def AutomaticCar_init_def)

lemma prob_right_in_update:
  "\<exists>pr. prob_right s ct cf df vf db (map_option f rf) (map_option g rf) vrb drb = Inr pr
        \<and> (pr = 0 \<or> pr = 0.9)"
  by (cases rf) (auto simp: prob_right_def py_and_def py_or_def gt_o_def)

lemma prob_left_in_update:
  "\<exists>pl. prob_left s ct cf af (map_option f vh) (map_option g vh)
            (map_option f1 lf) (map_option g1 lf) (map_option f2 lb) (map_option g2 lb) = Inr pl"
  by (cases vh; cases lf; cases lb)
     (auto simp: prob_left_def py_and_def py_or_def ge_o_def)

section \<open>The first tick on a free road (C5)\<close>

text \<open>
  A car with \<^verbatim>\<open>desired_velocity = 32\<close>, \<^verbatim>\<open>epsilon = 5\<close>, \<^verbatim>\<open>HV_AMAX = 3\<close> at velocity 0 and no
  neighbours: after one update with \<^verbatim>\<open>dt = 0.1\<close> its acceleration is 3, not \<^verbatim>\<open>HV_A0 = 1\<close>,
  and its velocity is 0.
\<close>

theorem free_flow_counterexample:
  "kind (ex_car 0 0 4 0) = Car
   \<and> desired_velocity (ex_car 0 0 4 0) = 32
   \<and> epsilon (ex_car 0 0 4 0) = 5
   \<and> velocity (ex_car 0 0 4 0) = 0
   \<and> HV_A0 (ex_car 0 0 4 0) = 1
   \<and> front no_neighbours (ex_car 0 0 4 0) = None
   \<and> HumanVehicle_update ex_conf no_neighbours 0.1 0.5 1 1 (ex_car 0 0 4 0)
       = Inr ((ex_car 0 0 4 0)\<lparr> acceleration := 3 \<rparr>, [])
   \<and> acceleration ((ex_car 0 0 4 0)\<lparr> acceleration := 3 \<rparr>) \<noteq> HV_A0 (ex_car 0 0 4 0)
   \<and> velocity ((ex_car 0 0 4 0)\<lparr> acceleration := 3 \<rparr>) = 0"
  by (simp add: HumanVehicle_update_def Vehicle_update_def prob_right_def prob_left_def
      enough_room_def py_and_def py_or_def lane_change_block_def lane_animation_def
      calc_acceleration_def HumanVehicle_calc_acceleration_def
      no_neighbours_def ex_car_def ex_conf_def Car_init_def Let_def)

text \<open>
  Claim C5, as the code has it: a car with \<^verbatim>\<open>desired_velocity = 32\<close>, \<^verbatim>\<open>epsilon = 5\<close>,
  velocity 0 and no vehicle in front has, after one update with \<^verbatim>\<open>dt = 0.1\<close>, the
  acceleration \<^verbatim>\<open>HV_AMAX\<close>: the velocity deficit is not below \<^verbatim>\<open>epsilon\<close>, and the deficit
  divided by the velocity plus 0.01, times \<^verbatim>\<open>HV_L * HV_AMAX\<close>, is at least \<^verbatim>\<open>HV_AMAX\<close>. Its
  velocity is 0.1 times the acceleration it had before the update, or 0 when that is
  negative: 0 for a car as constructed. The acceleration before the update is assumed to
  be at most \<^verbatim>\<open>HV_AMAX\<close>, as the constructor and every update leave it, and \<^verbatim>\<open>HV_AMAX\<close>
  and \<^verbatim>\<open>HV_L\<close> to be in the ranges of the constructor.
\<close>

theorem free_flow_first_tick:
  assumes "kind v = Car" and "desired_velocity v = 32" and "epsilon v = 5"
    and "velocity v = 0" and "acceleration v \<le> HV_AMAX v" and "HV_AMAX v \<le> 4"
    and "1 \<le> HV_L v" and "0 \<le> HV_AMAX v"
    and "\<forall>w. front ct w = None" and "speedup cf \<noteq> 0"
  shows "\<exists>r evs. HumanVehicle_update cf ct 0.1 p now now2 v = Inr (r, evs)
           \<and> acceleration r = HV_AMAX v \<and> velocity r = max 0 (0.1 * acceleration v)"
proof -
  let ?s = "after_kinematics cf ct 0.1 v"
  let ?w = "max 0 (0.1 * acceleration v)"
  from assms have fr: "front ct v = None" "front ct ?s = None" by simp_all
  from assms(5,6) have w: "0 \<le> ?w" "?w \<le> 0.4" by simp_all
  from assms fr w have vel: "velocity ?s = ?w"
    by (simp add: after_kinematics_fields Vehicle_update_velocity mult.commute)
  have other: "kind ?s = Car" "desired_velocity ?s = 32" "epsilon ?s = 5" "HV_L ?s = HV_L v"
    "HV_AMAX ?s = HV_AMAX v"
    using assms by (simp_all add: after_kinematics_def Let_def Vehicle_update_def fr)
  obtain pr where pr: "prob_right ?s ct cf None None
        (map_option (\<lambda>u. position ?s - position u) (back_v ct ?s))
        (map_option velocity (right_front ct ?s))
        (map_option (\<lambda>u. position u - position ?s) (right_front ct ?s))
        (map_option velocity (right_back ct ?s))
        (map_option (\<lambda>u. position ?s - position u) (right_back ct ?s)) = Inr pr"
    using prob_right_in_update by blast
  have pl: "prob_left ?s ct cf None None None
        (map_option (\<lambda>u. position u - position ?s) (left_front ct ?s))
        (map_option velocity (left_front ct ?s))
        (map_option (\<lambda>u. position ?s - position u) (left_back ct ?s))
        (map_option velocity (left_back ct ?s)) = Inr (PFloat 0)"
    by (simp add: prob_left_def)
  have lc: "lane_change_block cf p pr (PFloat 0) now now2
        (right_front ct ?s) (right_back ct ?s) (left_front ct ?s) (left_back ct ?s) ?s
      = Inr (?s, [])"
    using assms(10) vel w by (simp add: lane_change_block_def)
  have ratio: "1 \<le> (32 - ?w) / (?w + 0.01)"
    using w by (simp add: le_divide_eq)
  have big: "HV_AMAX v \<le> (32 - ?w) / (?w + 0.01) * HV_L v * HV_AMAX v"
  proof -
    from ratio assms(7) have "1 * 1 \<le> (32 - ?w) / (?w + 0.01) * HV_L v"
      by (intro mult_mono) simp_all
    with assms(8) have "1 * HV_AMAX v \<le> ((32 - ?w) / (?w + 0.01) * HV_L v) * HV_AMAX v"
      by (intro mult_right_mono) simp_all
    then show ?thesis by simp
  qed
  have zone: "32 - ?w \<noteq> 0" "\<not> 32 - ?w < 5" "?w + 0.01 \<noteq> 0"
    using w by simp_all
  have "HumanVehicle_calc_acceleration (lane_animation ?s) cf None None None
      = Inr (min (HV_AMAX v) ((32 - ?w) / (?w + 0.01) * HV_L v * HV_AMAX v))"
    unfolding HumanVehicle_calc_acceleration_def Let_def lane_animation_fields vel other
    using zone by (simp add: lane_animation_def other)
  with big have ca: "calc_acceleration (lane_animation ?s) cf None None None
      = Inr (lane_animation ?s, HV_AMAX v)"
    by (simp add: calc_acceleration_def lane_animation_fields other min_def)
  have "HumanVehicle_update cf ct 0.1 p now now2 v
      = Inr ((lane_animation ?s)\<lparr> acceleration := min (HV_AMAX v) (HV_AMAX v) \<rparr>,
             snd (Vehicle_update cf ct 0.1 v) @ [])"
    unfolding HumanVehicle_update_unfold Let_def
    by (simp add: fr pr pl lc ca other lane_animation_fields)
  then show ?thesis
    using vel by (simp add: lane_animation_fields)
qed

theorem free_flow_first_tick_witness:
  "(\<exists>r evs. HumanVehicle_update ex_conf no_neighbours 0.1 0.5 1 1 (ex_car 0 0 4 0)
               = Inr (r, evs)
           \<and> acceleration r = 3 \<and> velocity r = 0)
   \<and> (\<exists>r evs. HumanVehicle_update ex_conf no_neighbours 0.1 0.5 1 1
                 ((ex_car 0 0 4 0)\<lparr> acceleration := 1 \<rparr>) = Inr (r, evs)
           \<and> acceleration r = 3 \<and> velocity r = 0.1)"
  using free_flow_first_tick [where v = "ex_car 0 0 4 0" and ct = no_neighbours
      and cf = ex_conf and p = "0.5" and now = 1 and ?now2.0 = 1]
    free_flow_first_tick [where v = "(ex_car 0 0 4 0)\<lparr> acceleration := 1 \<rparr>"
      and ct = no_neighbours and cf = ex_conf and p = "0.5" and now = 1 and ?now2.0 = 1]
  by (simp add: no_neighbours_def ex_car_def ex_conf_def Car_init_def)

section \<open>\<^verbatim>\<open>safe_distance\<close> and \<^verbatim>\<open>extremely_safe_distance\<close> (C6)\<close>

text \<open>
  Claim C6 says that \<^verbatim>\<open>safe_distance\<close> is never below \<^verbatim>\<open>extremely_safe_distance\<close>. A newly
  constructed automatic car (velocity 0) with a car 6 m in front that moves at 30 m/s is in
  the lock-in zone; the test \<^verbatim>\<open>np.absolute(self.velocity - vf < 1)\<close> holds because
  \<open>0 - 30 < 1\<close>, the velocity jumps to 30 and \<^verbatim>\<open>safe_distance\<close> goes from 4 to 3, below
  \<^verbatim>\<open>extremely_safe_distance = 4\<close>.
\<close>

theorem safe_distance_below_esd_after_lock_in:
  "HumanVehicle_update ex_conf (only_front (ex_car 0 6 4 30)) 0.1 0.5 1 1 (ex_auto 0 0 0)
     = Inr ((ex_auto 0 0 0)\<lparr> velocity := 30, safe_distance := 3 \<rparr>, [])
   \<and> safe_distance ((ex_auto 0 0 0)\<lparr> velocity := 30, safe_distance := 3 \<rparr>)
       < extremely_safe_distance ((ex_auto 0 0 0)\<lparr> velocity := 30, safe_distance := 3 \<rparr>)"
  by (simp add: HumanVehicle_update_def Vehicle_update_def prob_right_def prob_left_def
      enough_room_def py_and_def py_or_def lane_change_block_def lane_animation_def
      calc_acceleration_def AutomaticCar_calc_acceleration_def
      only_front_def no_neighbours_def ex_car_def ex_auto_def ex_conf_def
      Car_init_def AutomaticCar_init_def Let_def)

text \<open>For \<^verbatim>\<open>Car\<close> and \<^verbatim>\<open>Truck\<close> the invariant holds after every update.\<close>

lemma safe_distance_ge_esd_Car_Truck:
  assumes "HumanVehicle_update cf ct dt p now now2 v = Inr (r, evs)"
    and "kind v \<noteq> AutomaticCar"
  shows "extremely_safe_distance r \<le> safe_distance r"
proof -
  let ?s = "after_kinematics cf ct dt v"
  from assms(1) obtain p_right p_left s3 evs2 s4 acc where
    lc: "lane_change_block cf p p_right p_left now now2
           (right_front ct ?s) (right_back ct ?s) (left_front ct ?s) (left_back ct ?s) ?s
         = Inr (s3, evs2)"
    and ca: "calc_acceleration (lane_animation s3) cf
               (map_option acceleration (front ct ?s)) (map_option velocity (front ct ?s))
               (map_option (\<lambda>u. position u - position ?s) (front ct ?s)) = Inr (s4, acc)"
    and r: "r = s4\<lparr> acceleration := min (HV_AMAX s4) acc \<rparr>"
    by (rule HumanVehicle_update_InrD)
  have s: "extremely_safe_distance ?s \<le> safe_distance ?s" "kind ?s \<noteq> AutomaticCar"
    using assms(2) by (simp_all add: after_kinematics_fields)
  from lane_change_block_InrD [OF lc] s
  have s3: "extremely_safe_distance s3 \<le> safe_distance s3" "kind s3 \<noteq> AutomaticCar"
    by auto
  from calc_acceleration_InrD [OF ca] s3 have "s4 = lane_animation s3"
    by (auto simp: lane_animation_fields)
  with s3 r show ?thesis
    by (simp add: lane_animation_fields)
qed

text \<open>
  For an \<^verbatim>\<open>AutomaticCar\<close> with the constants of its constructor it holds after every
  update in which the vehicle is not slower than the vehicle in front by 1 or more, that
  is, whenever the test of the source agrees with \<^verbatim>\<open>np.absolute(self.velocity - vf) < 1\<close>.
\<close>

lemma safe_distance_ge_esd_AutomaticCar_intended:
  assumes "HumanVehicle_update cf ct dt p now now2 v = Inr (r, evs)"
    and "extremely_safe_distance v = 4" and "safe_time v = 0.9"
    and "30 \<le> desired_velocity v"
    and "\<forall>u. front ct (after_kinematics cf ct dt v) = Some u
           \<longrightarrow> - 1 < velocity (after_kinematics cf ct dt v) - velocity u"
  shows "extremely_safe_distance r \<le> safe_distance r"
proof -
  let ?s = "after_kinematics cf ct dt v"
  from assms(1) obtain p_right p_left s3 evs2 s4 acc where
    lc: "lane_change_block cf p p_right p_left now now2
           (right_front ct ?s) (right_back ct ?s) (left_front ct ?s) (left_back ct ?s) ?s
         = Inr (s3, evs2)"
    and ca: "calc_acceleration (lane_animation s3) cf
               (map_option acceleration (front ct ?s)) (map_option velocity (front ct ?s))
               (map_option (\<lambda>u. position u - position ?s) (front ct ?s)) = Inr (s4, acc)"
    and r: "r = s4\<lparr> acceleration := min (HV_AMAX s4) acc \<rparr>"
    by (rule HumanVehicle_update_InrD)
  have sd: "safe_distance ?s = max 4 (velocity ?s * safe_time v)"
    and esd: "extremely_safe_distance ?s = 4"
    using assms(2) by (simp_all add: after_kinematics_def Let_def Vehicle_update_unchanged)
  have st: "safe_time v = 9 / 10"
    using assms(3) by simp
  from lane_change_block_InrD [OF lc]
  have s3: "safe_distance s3 = safe_distance ?s" "extremely_safe_distance s3 = 4"
    "velocity s3 = velocity ?s" "desired_velocity s3 = desired_velocity v"
    using esd by (auto simp: after_kinematics_fields)
  from calc_acceleration_InrD [OF ca] consider "s4 = lane_animation s3"
    | vf' where "map_option velocity (front ct ?s) = Some vf'"
        and "\<bar>vf' - desired_velocity v\<bar> < 2"
        and "extremely_safe_distance s4 = 4"
        and "safe_distance s4 = (if safe_distance ?s > 2 then safe_distance ?s - 1
                                 else safe_distance ?s)"
    by (auto simp: lane_animation_fields s3)
  then have "extremely_safe_distance s4 \<le> safe_distance s4"
  proof cases
    case 1
    then show ?thesis using s3 sd by (simp add: lane_animation_fields)
  next
    case 2
    then obtain u where u: "front ct ?s = Some u" and vu: "velocity u = vf'" by auto
    from assms(5) u have "- 1 < velocity ?s - velocity u" by blast
    with vu 2(2) assms(4) have "27 < velocity ?s" by simp
    then have "5 \<le> velocity ?s * safe_time v" unfolding st by simp
    with sd have "5 \<le> safe_distance ?s" by simp
    with 2 show ?thesis by simp
  qed
  with r show ?thesis by simp
qed

lemma HumanVehicle_calc_acceleration_lane:
  "HumanVehicle_calc_acceleration (s\<lparr> lane := l, animlane := a, last_lane_change := t \<rparr>)
     cf af vf df = HumanVehicle_calc_acceleration s cf af vf df"
  by (simp add: HumanVehicle_calc_acceleration_def cong: if_cong option.case_cong)

lemma case_sum_if:
  "(case (if c then x else y) of Inl e \<Rightarrow> F e | Inr z \<Rightarrow> G z) =
     (if c then (case x of Inl e \<Rightarrow> F e | Inr z \<Rightarrow> G z)
      else (case y of Inl e \<Rightarrow> F e | Inr z \<Rightarrow> G z))"
  by simp

lemma case_sum_case_option:
  "(case (case v of None \<Rightarrow> x | Some w \<Rightarrow> y w) of Inl e \<Rightarrow> F e | Inr z \<Rightarrow> G z) =
     (case v of None \<Rightarrow> (case x of Inl e \<Rightarrow> F e | Inr z \<Rightarrow> G z)
      | Some w \<Rightarrow> (case y w of Inl e \<Rightarrow> F e | Inr z \<Rightarrow> G z))"
  by (cases v) simp_all

lemma lane_updates_last:
  "s\<lparr> lane := l, animlane := a, last_lane_change := t, velocity := w, safe_distance := d \<rparr>
     = s\<lparr> velocity := w, safe_distance := d, lane := l, animlane := a, last_lane_change := t \<rparr>"
  by simp

lemma AutomaticCar_calc_acceleration_lane:
  "AutomaticCar_calc_acceleration (s\<lparr> lane := l, animlane := a, last_lane_change := t \<rparr>)
     cf af vf df =
   (case AutomaticCar_calc_acceleration s cf af vf df of
      Inl e \<Rightarrow> Inl e
    | Inr (s', acc) \<Rightarrow> Inr (s'\<lparr> lane := l, animlane := a, last_lane_change := t \<rparr>, acc))"
  by (simp add: AutomaticCar_calc_acceleration_def py_and_def Let_def
      case_sum_if case_sum_case_option lane_updates_last cong: if_cong option.case_cong)

lemma calc_acceleration_lane:
  "calc_acceleration (s\<lparr> lane := l, animlane := a, last_lane_change := t \<rparr>) cf af vf df =
   (case calc_acceleration s cf af vf df of
      Inl e \<Rightarrow> Inl e
    | Inr (s', acc) \<Rightarrow> Inr (s'\<lparr> lane := l, animlane := a, last_lane_change := t \<rparr>, acc))"
  by (simp add: calc_acceleration_def HumanVehicle_calc_acceleration_lane
      AutomaticCar_calc_acceleration_lane split: vkind.splits sum.splits)

lemma lane_change_block_shape:
  assumes "lane_change_block cf p pr pl now now2 rf rb lf lb s = Inr (s3, evs2)"
  shows "s3 = s\<lparr> lane := lane s3, animlane := animlane s,
                   last_lane_change := last_lane_change s3 \<rparr>"
  using lane_change_block_InrD [OF assms] by auto

lemma lane_change_block_clock:
  assumes "lane_change_block cf p pr pl now now2 rf rb lf lb s = Inr (s3, evs2)"
    and "lane_change_block cf p pr pl now' now2' rf rb lf lb s = Inr (s3', evs2')"
    and "(now - last_lane_change s > 5.0 / speedup cf)
           = (now' - last_lane_change s > 5.0 / speedup cf)"
  shows "evs2' = evs2 \<and> lane s3' = lane s3 \<and> (now2' = now2 \<longrightarrow> s3' = s3)"
  using assms unfolding lane_change_block_def
  by (auto split: if_splits pynum.splits)

lemma calc_after_lane_change:
  assumes lc: "lane_change_block cf p pr pl now now2 rf rb lf lb s = Inr (s3, evs2)"
    and ca: "calc_acceleration (lane_animation s3) cf af vf df = Inr (s4, acc)"
  obtains b where "calc_acceleration s cf af vf df = Inr (b, acc)"
    and "s4 = b\<lparr> lane := lane s3, animlane := animlane (lane_animation s3),
                   last_lane_change := last_lane_change s3 \<rparr>"
proof -
  have "lane_animation s3 = s\<lparr> lane := lane s3, animlane := animlane (lane_animation s3),
                                last_lane_change := last_lane_change s3 \<rparr>"
    using lane_change_block_InrD [OF lc] by (auto simp: lane_animation_def)
  with ca have "calc_acceleration (s\<lparr> lane := lane s3,
        animlane := animlane (lane_animation s3),
        last_lane_change := last_lane_change s3 \<rparr>) cf af vf df = Inr (s4, acc)"
    by simp
  then show ?thesis
    unfolding calc_acceleration_lane
    by (auto split: sum.splits prod.splits intro: that)
qed

section \<open>Two runs of the same update (C7)\<close>

text \<open>
  The same car, the same draw \<open>p = 0.5\<close>, the same empty road, \<^verbatim>\<open>dt = 0.1\<close>: when
  \<^verbatim>\<open>time.time()\<close> reads 4 seconds after the construction the car stays in lane 0, when it
  reads 10 seconds the car moves to lane 1.
\<close>

theorem clock_dependence_counterexample:
  "HumanVehicle_update ex_conf no_neighbours 0.1 0.5 4 4 (ex_car 0 100 4 20)
     = Inr ((ex_car 0 100 4 20)\<lparr> position := 102, safe_distance := 18,
              acceleration := 1200 / 667 \<rparr>, [])
   \<and> HumanVehicle_update ex_conf no_neighbours 0.1 0.5 10 10 (ex_car 0 100 4 20)
     = Inr ((ex_car 0 100 4 20)\<lparr> position := 102, safe_distance := 18, lane := 1,
              last_lane_change := 10, animlane := 0.1, acceleration := 1200 / 667 \<rparr>,
            [Notify_lane_change 0])
   \<and> lane ((ex_car 0 100 4 20)\<lparr> position := 102, safe_distance := 18,
              acceleration := 1200 / 667 \<rparr>)
       \<noteq> lane ((ex_car 0 100 4 20)\<lparr> position := 102, safe_distance := 18, lane := 1,
              last_lane_change := 10, animlane := 0.1, acceleration := 1200 / 667 \<rparr>)"
  by (simp add: HumanVehicle_update_def Vehicle_update_def prob_right_def prob_left_def
      enough_room_def py_and_def py_or_def lane_change_block_def lane_animation_def
      calc_acceleration_def HumanVehicle_calc_acceleration_def py_round1_def
      no_neighbours_def ex_car_def ex_conf_def Car_init_def Let_def)

text \<open>
  Claim C7, as the code has it: two runs of the update from the same vehicle state, with the
  same draw and the same container, that both return, give the same position, velocity,
  acceleration, emergency countdown and \<^verbatim>\<open>safe_distance\<close>, whatever the clock reads. When
  the clock readings in the condition fall on the same side of the cooldown test, the runs
  give the same lane, the same \<^verbatim>\<open>animlane\<close> and the same events; when also the reading
  stored in \<^verbatim>\<open>last_lane_change\<close> is the same, the whole vehicle state is the same.
\<close>

theorem update_deterministic_up_to_clock:
  assumes run: "HumanVehicle_update cf ct dt p now now2 v = Inr (r, evs)"
    and run': "HumanVehicle_update cf ct dt p now' now2' v = Inr (r', evs')"
  shows "position r' = position r \<and> velocity r' = velocity r
         \<and> acceleration r' = acceleration r \<and> emergency r' = emergency r
         \<and> safe_distance r' = safe_distance r
         \<and> ((now - last_lane_change v > 5.0 / speedup cf)
               = (now' - last_lane_change v > 5.0 / speedup cf)
             \<longrightarrow> lane r' = lane r \<and> animlane r' = animlane r \<and> evs' = evs
                 \<and> (now2' = now2 \<longrightarrow> r' = r))"
proof -
  let ?s = "after_kinematics cf ct dt v"
  let ?af = "map_option acceleration (front ct ?s)"
  let ?vf = "map_option velocity (front ct ?s)"
  let ?df = "map_option (\<lambda>u. position u - position ?s) (front ct ?s)"
  let ?pr = "prob_right ?s ct cf ?df ?vf
        (map_option (\<lambda>u. position ?s - position u) (back_v ct ?s))
        (map_option velocity (right_front ct ?s))
        (map_option (\<lambda>u. position u - position ?s) (right_front ct ?s))
        (map_option velocity (right_back ct ?s))
        (map_option (\<lambda>u. position ?s - position u) (right_back ct ?s))"
  let ?pl = "prob_left ?s ct cf ?af ?vf ?df
        (map_option (\<lambda>u. position u - position ?s) (left_front ct ?s))
        (map_option velocity (left_front ct ?s))
        (map_option (\<lambda>u. position ?s - position u) (left_back ct ?s))
        (map_option velocity (left_back ct ?s))"
  from run obtain p_right p_left s3 evs2 s4 acc where
    pr: "?pr = Inr p_right" and pl: "?pl = Inr p_left"
    and lc: "lane_change_block cf p p_right p_left now now2
           (right_front ct ?s) (right_back ct ?s) (left_front ct ?s) (left_back ct ?s) ?s
         = Inr (s3, evs2)"
    and ca: "calc_acceleration (lane_animation s3) cf ?af ?vf ?df = Inr (s4, acc)"
    and r: "r = s4\<lparr> acceleration := min (HV_AMAX s4) acc \<rparr>"
    and e: "evs = snd (Vehicle_update cf ct dt v) @ evs2"
    by (rule HumanVehicle_update_InrD)
  from run' obtain p_right' p_left' s3' evs2' s4' acc' where
    pr': "?pr = Inr p_right'" and pl': "?pl = Inr p_left'"
    and lc': "lane_change_block cf p p_right' p_left' now' now2'
           (right_front ct ?s) (right_back ct ?s) (left_front ct ?s) (left_back ct ?s) ?s
         = Inr (s3', evs2')"
    and ca': "calc_acceleration (lane_animation s3') cf ?af ?vf ?df = Inr (s4', acc')"
    and r': "r' = s4'\<lparr> acceleration := min (HV_AMAX s4') acc' \<rparr>"
    and e': "evs' = snd (Vehicle_update cf ct dt v) @ evs2'"
    by (rule HumanVehicle_update_InrD)
  from pr pr' pl pl' have same: "p_right' = p_right" "p_left' = p_left" by simp_all
  from lc ca obtain b where b: "calc_acceleration ?s cf ?af ?vf ?df = Inr (b, acc)"
    and s4: "s4 = b\<lparr> lane := lane s3, animlane := animlane (lane_animation s3),
                      last_lane_change := last_lane_change s3 \<rparr>"
    by (rule calc_after_lane_change)
  from lc' ca' obtain b' where b': "calc_acceleration ?s cf ?af ?vf ?df = Inr (b', acc')"
    and s4': "s4' = b'\<lparr> lane := lane s3', animlane := animlane (lane_animation s3'),
                      last_lane_change := last_lane_change s3' \<rparr>"
    by (rule calc_after_lane_change)
  from b b' have bb: "b' = b" "acc' = acc" by simp_all
  have kin: "position r' = position r \<and> velocity r' = velocity r
         \<and> acceleration r' = acceleration r \<and> emergency r' = emergency r
         \<and> safe_distance r' = safe_distance r"
    by (simp add: r r' s4 s4' bb)
  have clock: "lane r' = lane r \<and> animlane r' = animlane r \<and> evs' = evs
                 \<and> (now2' = now2 \<longrightarrow> r' = r)"
    if g: "(now - last_lane_change v > 5.0 / speedup cf)
               = (now' - last_lane_change v > 5.0 / speedup cf)"
  proof -
    from g have g': "(now - last_lane_change ?s > 5.0 / speedup cf)
               = (now' - last_lane_change ?s > 5.0 / speedup cf)"
      by (simp add: after_kinematics_fields)
    from lane_change_block_clock [OF lc lc' [unfolded same] g']
    have c: "evs2' = evs2" "lane s3' = lane s3" "now2' = now2 \<longrightarrow> s3' = s3"
      by simp_all
    have "animlane s3' = animlane s3"
      using lane_change_block_InrD [OF lc] lane_change_block_InrD [OF lc'] by auto
    with c(2) have a: "animlane (lane_animation s3') = animlane (lane_animation s3)"
      by (simp add: lane_animation_def)
    from c a show ?thesis
      by (auto simp: r r' s4 s4' bb e e')
  qed
  from kin clock show ?thesis by blast
qed

theorem update_deterministic_up_to_clock_witness:
  "lane (fst (projr (HumanVehicle_update ex_conf no_neighbours 0.1 0.5 10 10
                       (ex_car 0 100 4 20))))
     = lane (fst (projr (HumanVehicle_update ex_conf no_neighbours 0.1 0.5 20 20
                       (ex_car 0 100 4 20))))
   \<and> position (fst (projr (HumanVehicle_update ex_conf no_neighbours 0.1 0.5 4 4
                       (ex_car 0 100 4 20))))
     = position (fst (projr (HumanVehicle_update ex_conf no_neighbours 0.1 0.5 10 10
                       (ex_car 0 100 4 20))))"
proof -
  note defs = HumanVehicle_update_def Vehicle_update_def prob_right_def prob_left_def
    enough_room_def py_and_def py_or_def lane_change_block_def lane_animation_def
    calc_acceleration_def HumanVehicle_calc_acceleration_def py_round1_def
    no_neighbours_def ex_car_def ex_conf_def Car_init_def Let_def
  have early: "HumanVehicle_update ex_conf no_neighbours 0.1 0.5 4 4 (ex_car 0 100 4 20)
     = Inr ((ex_car 0 100 4 20)\<lparr> position := 102, safe_distance := 18,
              acceleration := 1200 / 667 \<rparr>, [])"
    by (simp add: defs)
  have late: "HumanVehicle_update ex_conf no_neighbours 0.1 0.5 10 10 (ex_car 0 100 4 20)
     = Inr ((ex_car 0 100 4 20)\<lparr> position := 102, safe_distance := 18, lane := 1,
              last_lane_change := 10, animlane := 0.1, acceleration := 1200 / 667 \<rparr>,
            [Notify_lane_change 0])"
    by (simp add: defs)
  have later: "HumanVehicle_update ex_conf no_neighbours 0.1 0.5 20 20 (ex_car 0 100 4 20)
     = Inr ((ex_car 0 100 4 20)\<lparr> position := 102, safe_distance := 18, lane := 1,
              last_lane_change := 20, animlane := 0.1, acceleration := 1200 / 667 \<rparr>,
            [Notify_lane_change 0])"
    by (simp add: defs)
  have g: "(10 - last_lane_change (ex_car 0 100 4 20) > 5.0 / speedup ex_conf)
         = (20 - last_lane_change (ex_car 0 100 4 20) > 5.0 / speedup ex_conf)"
    by (simp add: defs)
  from update_deterministic_up_to_clock [OF later late]
    update_deterministic_up_to_clock [OF early late] g
  show ?thesis
    unfolding early late later by simp
qed

section \<open>\<^verbatim>\<open>prob_left\<close> above 1 (C10)\<close>

text \<open>
  Claim C10: when the gap \<open>d\<close> to the vehicle in front is positive and below
  \<^verbatim>\<open>safe_distance\<close> and the conditions of \<^verbatim>\<open>prob_left\<close> hold, \<^verbatim>\<open>prob_left\<close> returns
  \<open>(safe_distance / d) powr (3 / 4)\<close>, which is greater than 1; every draw \<open>p < 1\<close> is then
  below it, and the lane change to the left happens whenever the lane change is not on
  cooldown, the velocity exceeds 3, the change to the right is not taken and the conditions
  on the lane and the positions hold. The witness is a car in lane 1 at 20 m/s, 8 m behind
  a standing car, with the draw 0.95: it moves to lane 0.
\<close>

theorem prob_left_exceeds_one:
  assumes "0 < d" and "d < safe_distance s" and "1 \<le> HV_K1 s"
    and "desired_velocity s - velocity s > epsilon s
         \<or> (case vf of None \<Rightarrow> False | Some x \<Rightarrow> desired_velocity s - x > epsilon s)"
    and "enough_room s ct (Left, Front)" and "enough_room s ct (Left, Back)"
    and "case vlf of None \<Rightarrow> True
         | Some x \<Rightarrow> velocity s \<le> x
             \<or> (case dlf of None \<Rightarrow> False | Some y \<Rightarrow> y \<ge> HV_K1 s * safe_distance s)"
    and "case vlb of None \<Rightarrow> True
         | Some x \<Rightarrow> velocity s \<ge> x
             \<or> (case dlb of None \<Rightarrow> False | Some y \<Rightarrow> y \<ge> HV_K1 s * safe_distance s)"
  shows "prob_left s ct cf af vf (Some d) dlf vlf dlb vlb
           = Inr (PFloat ((safe_distance s / d) powr (3 / 4)))
         \<and> 1 < (safe_distance s / d) powr (3 / 4)
         \<and> (p < 1 \<and> speedup cf \<noteq> 0
              \<and> now - last_lane_change s > 5.0 / speedup cf \<and> velocity s > 3
              \<and> \<not> (p < p_right \<and> lane s + 1 < nb_lanes cf
                     \<and> position s > 3 * safe_distance s
                     \<and> (case veh_rf of None \<Rightarrow> True
                         | Some rf \<Rightarrow> position rf - position s > safe_distance s)
                     \<and> (case veh_rb of None \<Rightarrow> True
                         | Some rb \<Rightarrow> position s - position rb > safe_distance rb))
              \<and> lane s > 0 \<and> position s > 3 * safe_distance s
              \<and> (case veh_lf of None \<Rightarrow> True
                  | Some lf \<Rightarrow> position lf - position s > safe_distance s)
              \<and> (case veh_lb of None \<Rightarrow> True
                  | Some lb \<Rightarrow> position s - position lb > safe_distance lb)
            \<longrightarrow> lane_change_block cf p p_right (PFloat ((safe_distance s / d) powr (3 / 4)))
                  now now2 veh_rf veh_rb veh_lf veh_lb s
                = Inr (s\<lparr> lane := lane s - 1, last_lane_change := now2 \<rparr>,
                       [Notify_lane_change (lane s)]))"
proof -
  from assms(1,2) have sd: "0 < safe_distance s" by simp
  with assms(3) have "1 * safe_distance s \<le> HV_K1 s * safe_distance s"
    by (intro mult_right_mono) simp_all
  with assms(2) have k1: "d < HV_K1 s * safe_distance s" by simp
  from assms(1,2) have ratio: "1 < safe_distance s / d" by simp
  then have big: "1 < (safe_distance s / d) powr (3 / 4)"
    by (rule gr_one_powr) simp
  from ratio have nonneg: "\<not> safe_distance s / d < 0" by simp
  have lf: "(case vlf of None \<Rightarrow> Inr True
             | Some vlf' \<Rightarrow> py_or (Inr (velocity s \<le> vlf'))
                              (ge_o dlf (HV_K1 s * safe_distance s))) = Inr True"
    using assms(7) by (auto simp: py_or_def ge_o_def split: option.splits)
  have lb: "(case vlb of None \<Rightarrow> Inr True
             | Some vlb' \<Rightarrow> py_or (Inr (velocity s \<ge> vlb'))
                              (ge_o dlb (HV_K1 s * safe_distance s))) = Inr True"
    using assms(8) by (auto simp: py_or_def ge_o_def split: option.splits)
  have deficit: "py_or (Inr (desired_velocity s - velocity s > epsilon s))
                  (case vf of None \<Rightarrow> Inl TypeError
                   | Some vf' \<Rightarrow> Inr (desired_velocity s - vf' > epsilon s)) = Inr True"
    using assms(4) by (auto simp: py_or_def split: option.splits)
  have pl: "prob_left s ct cf af vf (Some d) dlf vlf dlb vlb
           = Inr (PFloat ((safe_distance s / d) powr (3 / 4)))"
    unfolding prob_left_def lf lb deficit
    using assms(1,5,6) k1 nonneg by (simp add: py_and_def)
  have lc: "lane_change_block cf p p_right (PFloat ((safe_distance s / d) powr (3 / 4)))
                  now now2 veh_rf veh_rb veh_lf veh_lb s
                = Inr (s\<lparr> lane := lane s - 1, last_lane_change := now2 \<rparr>,
                       [Notify_lane_change (lane s)])"
    if "p < 1" "speedup cf \<noteq> 0" "now - last_lane_change s > 5.0 / speedup cf"
      "velocity s > 3"
      "\<not> (p < p_right \<and> lane s + 1 < nb_lanes cf
          \<and> position s > 3 * safe_distance s
          \<and> (case veh_rf of None \<Rightarrow> True
              | Some rf \<Rightarrow> position rf - position s > safe_distance s)
          \<and> (case veh_rb of None \<Rightarrow> True
              | Some rb \<Rightarrow> position s - position rb > safe_distance rb))"
      "lane s > 0" "position s > 3 * safe_distance s"
      "case veh_lf of None \<Rightarrow> True | Some lf \<Rightarrow> position lf - position s > safe_distance s"
      "case veh_lb of None \<Rightarrow> True | Some lb \<Rightarrow> position s - position lb > safe_distance lb"
  proof -
    from that(1) big have "p < (safe_distance s / d) powr (3 / 4)" by simp
    with that show ?thesis
      unfolding lane_change_block_def by auto
  qed
  from pl big lc show ?thesis by blast
qed

theorem prob_left_exceeds_one_witness:
  "HumanVehicle_update ex_conf (only_front (ex_car 1 210 4 0)) (1 / 10) (19 / 20) 10 10
       (ex_car 1 200 4 20)
     = Inr ((ex_car 1 200 4 20)\<lparr> position := 202, safe_distance := 18, lane := 0,
              last_lane_change := 10, animlane := 9 / 10, acceleration := 3 \<rparr>,
            [Notify_lane_change 1])
   \<and> prob_left ((ex_car 1 200 4 20)\<lparr> position := 202, safe_distance := 18 \<rparr>)
         (only_front (ex_car 1 210 4 0)) ex_conf (Some 0) (Some 0) (Some 8) None None None None
       = Inr (PFloat ((18 / 8) powr (3 / 4)))
   \<and> 1 < (18 / 8) powr (3 / 4 :: real)"
proof -
  let ?v = "ex_car 1 200 4 20"
  let ?f = "ex_car 1 210 4 0"
  let ?s = "(ex_car 1 200 4 20)\<lparr> position := 202, safe_distance := 18 \<rparr>"
  note fixtures = only_front_def no_neighbours_def ex_car_def ex_conf_def Car_init_def
  have s: "after_kinematics ex_conf (only_front ?f) (1 / 10) ?v = ?s"
    by (simp add: after_kinematics_def Vehicle_update_def fixtures Let_def)
  have left: "prob_left ?s (only_front ?f) ex_conf (Some 0) (Some 0) (Some 8)
         None None None None = Inr (PFloat ((18 / 8) powr (3 / 4)))
     \<and> 1 < (18 / 8) powr (3 / 4 :: real)
     \<and> lane_change_block ex_conf (19 / 20) (9 / 10) (PFloat ((18 / 8) powr (3 / 4)))
          10 10 None None None None ?s
        = Inr (?s\<lparr> lane := 0, last_lane_change := 10 \<rparr>, [Notify_lane_change 1])"
    using prob_left_exceeds_one [where s = ?s and d = 8 and ct = "only_front ?f"
        and cf = ex_conf and af = "Some 0" and vf = "Some 0"
        and dlf = None and vlf = None and dlb = None and vlb = None
        and p = "19 / 20" and p_right = "9 / 10" and now = 10 and ?now2.0 = 10
        and veh_rf = None and veh_rb = None and veh_lf = None and veh_lb = None]
    by (simp add: enough_room_def fixtures)
  have right: "prob_right ?s (only_front ?f) ex_conf (Some 8) (Some 0) None
         None None None None = Inr (9 / 10)"
    by (simp add: prob_right_def py_and_def enough_room_def fixtures)
  have front: "front (only_front ?f) ?s = Some ?f" "back_v (only_front ?f) ?s = None"
    "left_front (only_front ?f) ?s = None" "left_back (only_front ?f) ?s = None"
    "right_front (only_front ?f) ?s = None" "right_back (only_front ?f) ?s = None"
    by (simp_all add: only_front_def no_neighbours_def)
  have gap: "position ?f - position ?s = 8" "velocity ?f = 0" "acceleration ?f = 0"
    by (simp_all add: fixtures)
  have calc: "calc_acceleration (lane_animation (?s\<lparr> lane := 0, last_lane_change := 10 \<rparr>))
        ex_conf (Some 0) (Some 0) (Some 8)
      = Inr (?s\<lparr> lane := 0, last_lane_change := 10, animlane := 9 / 10 \<rparr>, 5)"
    by (simp add: calc_acceleration_def HumanVehicle_calc_acceleration_def lane_animation_def
        py_round1_def fixtures)
  have events: "snd (Vehicle_update ex_conf (only_front ?f) (1 / 10) ?v) = []"
    by (simp add: Vehicle_update_def fixtures Let_def)
  have "HumanVehicle_update ex_conf (only_front ?f) (1 / 10) (19 / 20) 10 10 ?v
     = Inr ((?s\<lparr> lane := 0, last_lane_change := 10, animlane := 9 / 10 \<rparr>)
               \<lparr> acceleration := min (HV_AMAX (?s\<lparr> lane := 0, last_lane_change := 10,
                                              animlane := 9 / 10 \<rparr>)) 5 \<rparr>,
            [] @ [Notify_lane_change 1])"
    unfolding HumanVehicle_update_unfold Let_def s front option.map gap right
    by (simp only: left calc events sum.case prod.case)
  then show ?thesis
    using left by (simp add: fixtures)
qed

end
